theory Spec2Isabelle
  imports Main "HOL-Library.Char_ord" "HOL-Library.List_Lexorder" "HOL-Library.Option_ord"
    "HOL-Library.Product_Lexorder"
begin

section \<open>Conventions of the embedding\<close>

text \<open>
  The repository holds two Express servers over a MongoDB store accessed through Mongoose:
  \<^item> the single-file server (\<^verbatim>\<open>src/unnamed/part_000\<close>), with its four schemas declared inline
    and the routes \<^verbatim>\<open>/api/users\<close>, \<^verbatim>\<open>/api/tasks\<close>, \<^verbatim>\<open>/api/categories\<close>, \<^verbatim>\<open>/api/projects\<close>;
    its definitions carry the prefix \<open>srv_\<close>;
  \<^item> the modular server \<^verbatim>\<open>task-management-api/server\<close> (\<^verbatim>\<open>models/Task.js\<close>,
    \<^verbatim>\<open>models/User.js\<close>, \<^verbatim>\<open>middleware/validation.js\<close>, \<^verbatim>\<open>routes/tasks.js\<close>).

  A collection is the list of its documents in insertion order. A handler is a function from
  the runtime, the request and the store to a response and the new store. A store call
  fails where the model says so (a failed validation, a failed cast, a duplicate key, a
  refused populate, a refused pattern, a refused skip); a lost connection is outside the
  model.

  An ObjectId is a natural number; a request field or path parameter that should hold an id
  is an ObjectId or some other string (\<open>raw_id\<close>). Dates are integers (milliseconds since the
  epoch). A string is the list of the bytes of its UTF-8 encoding. A JavaScript number is a
  \<open>jsnum\<close>: the model computes on the integers a double holds exactly and takes every other
  result from the runtime. A collection holds fewer than \<open>2 ^ 53\<close> documents.
\<close>

type_synonym oid = nat

datatype json =
    JNull
  | JBool bool
  | JNum int
  | JDouble nat
  | JStr string
  | JDate int
  | JOid oid
  | JArr "json list"
  | JObj "(string \<times> json) list"

definition jget :: "string \<Rightarrow> json \<Rightarrow> json option" where
  "jget k j = (case j of JObj kvs \<Rightarrow> map_of kvs k | _ \<Rightarrow> None)"

definition jkeys :: "json \<Rightarrow> string list" where
  "jkeys j = (case j of JObj kvs \<Rightarrow> map fst kvs | _ \<Rightarrow> [])"

text \<open>A key whose value is \<^verbatim>\<open>undefined\<close> is left out of the serialised object.\<close>

definition opt_field :: "string \<Rightarrow> ('a \<Rightarrow> json) \<Rightarrow> 'a option \<Rightarrow> (string \<times> json) list" where
  "opt_field k f v = (case v of None \<Rightarrow> [] | Some x \<Rightarrow> [(k, f x)])"

text \<open>\<^verbatim>\<open>delete obj.key\<close>\<close>

definition jdelete :: "string \<Rightarrow> (string \<times> json) list \<Rightarrow> (string \<times> json) list" where
  "jdelete k kvs = filter (\<lambda>kv. fst kv \<noteq> k) kvs"

record response =
  res_status :: nat
  res_body :: json

definition fail_json :: "nat \<Rightarrow> string \<Rightarrow> response" where
  "fail_json code msg =
     \<lparr>res_status = code, res_body = JObj [(''success'', JBool False), (''message'', JStr msg)]\<rparr>"

text \<open>The runtime of a request: the clock read by \<^verbatim>\<open>new Date()\<close> and \<^verbatim>\<open>Date.now\<close>, the ObjectId
  the driver generates for the next new document, \<^verbatim>\<open>new Date(string)\<close> (\<open>None\<close> is Invalid
  Date), and the rank by which the store orders documents whose sort keys are equal (it
  promises no order among them, so any rank is possible).\<close>

record env =
  now :: int
  newId :: oid
  parseDate :: "string \<Rightarrow> int option"
  tieRank :: "oid \<Rightarrow> nat"

text \<open>JavaScript truthiness of a string-valued request field: \<^verbatim>\<open>undefined\<close> and the empty
  string are falsy.\<close>

definition truthy :: "string option \<Rightarrow> bool" where
  "truthy v = (case v of None \<Rightarrow> False | Some s \<Rightarrow> s \<noteq> [])"

definition str_of :: "string option \<Rightarrow> string" where
  "str_of v = (case v of None \<Rightarrow> [] | Some s \<Rightarrow> s)"

text \<open>A field that should hold an id: an ObjectId, or a string that is none.\<close>

datatype raw_id = Id oid | NotAnId string

definition raw_id_json :: "raw_id \<Rightarrow> json" where
  "raw_id_json r = (case r of Id i \<Rightarrow> JOid i | NotAnId s \<Rightarrow> JStr s)"

definition truthy_id :: "raw_id option \<Rightarrow> bool" where
  "truthy_id v = (case v of None \<Rightarrow> False | Some (Id i) \<Rightarrow> True | Some (NotAnId s) \<Rightarrow> s \<noteq> [])"

text \<open>What a call of the ODM raises: a validation error with one entry (path, failed rule)
  per offending path, the store's duplicate-key error 11000 with the first key of
  \<^verbatim>\<open>keyValue\<close>, the failed cast of a query value (a string that is no ObjectId), the refusal
  to populate a path the schema does not declare, or anything else.\<close>

datatype odm_error =
    ValidationError "(string \<times> string) list"
  | DuplicateKey string
  | CastError
  | StrictPopulateError
  | OtherError

text \<open>\<^verbatim>\<open>findById\<close>: a value that is no ObjectId fails the cast.\<close>

definition findById :: "('a \<Rightarrow> oid) \<Rightarrow> raw_id \<Rightarrow> 'a list \<Rightarrow> odm_error + 'a option" where
  "findById ident r xs =
     (case r of NotAnId s \<Rightarrow> Inl CastError | Id i \<Rightarrow> Inr (find (\<lambda>x. ident x = i) xs))"

section \<open>JavaScript and library functions\<close>

subsection \<open>Strings\<close>

text \<open>The UTF-8 encodings of the characters that \<^verbatim>\<open>\s\<close> and \<^verbatim>\<open>trim\<close> take for white space:
  U+0009 to U+000D, U+0020, U+00A0, U+1680, U+2000 to U+200A, U+2028, U+2029, U+202F,
  U+205F, U+3000 and U+FEFF.\<close>

definition ws_encodings :: "string list" where
  "ws_encodings =
     [[CHR 0x09], [CHR 0x0A], [CHR 0x0B], [CHR 0x0C], [CHR 0x0D], [CHR 0x20],
      [CHR 0xC2, CHR 0xA0], [CHR 0xE1, CHR 0x9A, CHR 0x80],
      [CHR 0xE2, CHR 0x80, CHR 0x80], [CHR 0xE2, CHR 0x80, CHR 0x81],
      [CHR 0xE2, CHR 0x80, CHR 0x82], [CHR 0xE2, CHR 0x80, CHR 0x83],
      [CHR 0xE2, CHR 0x80, CHR 0x84], [CHR 0xE2, CHR 0x80, CHR 0x85],
      [CHR 0xE2, CHR 0x80, CHR 0x86], [CHR 0xE2, CHR 0x80, CHR 0x87],
      [CHR 0xE2, CHR 0x80, CHR 0x88], [CHR 0xE2, CHR 0x80, CHR 0x89],
      [CHR 0xE2, CHR 0x80, CHR 0x8A], [CHR 0xE2, CHR 0x80, CHR 0xA8],
      [CHR 0xE2, CHR 0x80, CHR 0xA9], [CHR 0xE2, CHR 0x80, CHR 0xAF],
      [CHR 0xE2, CHR 0x81, CHR 0x9F], [CHR 0xE3, CHR 0x80, CHR 0x80],
      [CHR 0xEF, CHR 0xBB, CHR 0xBF]]"

text \<open>The number of bytes of the white-space character a string starts with (0 if it
  starts with none), for the encodings read forwards or, on a reversed string, backwards.\<close>

definition ws_prefix :: "string list \<Rightarrow> string \<Rightarrow> nat" where
  "ws_prefix encs s =
     (case find (\<lambda>w. take (length w) s = w) encs of None \<Rightarrow> 0 | Some w \<Rightarrow> length w)"

text \<open>Dropping the leading white space; the first argument counts the bytes still to drop
  of the character being dropped.\<close>

fun strip_ws :: "string list \<Rightarrow> nat \<Rightarrow> string \<Rightarrow> string" where
  "strip_ws encs k [] = []"
| "strip_ws encs (Suc k) (c # cs) = strip_ws encs k cs"
| "strip_ws encs 0 (c # cs) =
     (if ws_prefix encs (c # cs) = 0 then c # cs
      else strip_ws encs (ws_prefix encs (c # cs) - 1) cs)"

text \<open>\<^verbatim>\<open>String.prototype.trim\<close>, and the validator library's \<^verbatim>\<open>trim\<close> sanitizer.\<close>

definition trim :: "string \<Rightarrow> string" where
  "trim s = rev (strip_ws (map rev ws_encodings) 0 (rev (strip_ws ws_encodings 0 s)))"

text \<open>Some character of the string is white space (the string does not match \<^verbatim>\<open>^\S*$\<close>).\<close>

fun has_ws :: "string \<Rightarrow> bool" where
  "has_ws [] = False"
| "has_ws (c # cs) = (ws_prefix ws_encodings (c # cs) \<noteq> 0 \<or> has_ws cs)"

text \<open>Lengths: the code points of a string (every byte but the continuation bytes), which
  the validator library's \<^verbatim>\<open>isLength\<close> counts, and its UTF-16 code units (two for a
  four-byte character), which \<^verbatim>\<open>.length\<close> and the schema's \<^verbatim>\<open>minlength\<close> and \<^verbatim>\<open>maxlength\<close>
  count.\<close>

definition cp_length :: "string \<Rightarrow> nat" where
  "cp_length s = length (filter (\<lambda>c. \<not> (128 \<le> (of_char c :: nat) \<and> (of_char c :: nat) < 192)) s)"

definition js_length :: "string \<Rightarrow> nat" where
  "js_length s = cp_length s + length (filter (\<lambda>c. 240 \<le> (of_char c :: nat)) s)"

fun splits_at :: "char \<Rightarrow> string \<Rightarrow> (string \<times> string) list" where
  "splits_at c [] = []"
| "splits_at c (x # xs) =
     (if x = c then [([], xs)] else []) @ map (\<lambda>pq. (x # fst pq, snd pq)) (splits_at c xs)"

text \<open>Decimal numeral of an array index, for the path \<^verbatim>\<open>tags[i]\<close> of a wildcard field.\<close>

fun show_nat :: "nat \<Rightarrow> string" where
  "show_nat n =
     (if n < 10 then [char_of (48 + n)] else show_nat (n div 10) @ [char_of (48 + n mod 10)])"

declare show_nat.simps [simp del]

text \<open>\<^verbatim>\<open>toUpperCase\<close> on ASCII letters.\<close>

definition to_upper :: "char \<Rightarrow> char" where
  "to_upper c = (if CHR ''a'' \<le> c \<and> c \<le> CHR ''z'' then char_of (of_char c - (32::nat)) else c)"

text \<open>\<^verbatim>\<open>str.split(' ')\<close>\<close>

fun split_spaces :: "string \<Rightarrow> string list" where
  "split_spaces [] = [[]]"
| "split_spaces (c # cs) =
     (if c = CHR '' '' then [] # split_spaces cs
      else (case split_spaces cs of [] \<Rightarrow> [[c]] | w # ws \<Rightarrow> (c # w) # ws))"

subsection \<open>Integers in strings\<close>

definition is_digit :: "char \<Rightarrow> bool" where
  "is_digit c = (CHR ''0'' \<le> c \<and> c \<le> CHR ''9'')"

definition digit_val :: "char \<Rightarrow> int" where
  "digit_val c = int (of_char c) - 48"

definition digits_val :: "string \<Rightarrow> int" where
  "digits_val ds = foldl (\<lambda>a c. 10 * a + digit_val c) 0 ds"

definition is_hex_digit :: "char \<Rightarrow> bool" where
  "is_hex_digit c = (is_digit c \<or> (CHR ''a'' \<le> c \<and> c \<le> CHR ''f'') \<or> (CHR ''A'' \<le> c \<and> c \<le> CHR ''F''))"

definition hex_digit_val :: "char \<Rightarrow> int" where
  "hex_digit_val c =
     (if is_digit c then digit_val c
      else if CHR ''a'' \<le> c then int (of_char c) - 87 else int (of_char c) - 55)"

definition hex_val :: "string \<Rightarrow> int" where
  "hex_val ds = foldl (\<lambda>a c. 16 * a + hex_digit_val c) 0 ds"

definition strip_sign :: "string \<Rightarrow> bool \<times> string" where
  "strip_sign s =
     (case s of
        [] \<Rightarrow> (False, [])
      | c # r \<Rightarrow> if c = CHR ''-'' then (True, r) else if c = CHR ''+'' then (False, r)
                 else (False, s))"

definition parse_magnitude :: "string \<Rightarrow> int option" where
  "parse_magnitude u =
     (if take 2 u = ''0x'' \<or> take 2 u = ''0X''
      then (let hs = takeWhile is_hex_digit (drop 2 u)
            in if hs = [] then None else Some (hex_val hs))
      else (let ds = takeWhile is_digit u
            in if ds = [] then None else Some (digits_val ds)))"

text \<open>A plain decimal integer numeral, \<^verbatim>\<open>/^[-+]?[0-9]+$/\<close>, and the integer it denotes.\<close>

definition int_syntax :: "string \<Rightarrow> bool" where
  "int_syntax s = (snd (strip_sign s) \<noteq> [] \<and> list_all is_digit (snd (strip_sign s)))"

definition int_value :: "string \<Rightarrow> int" where
  "int_value s = (if fst (strip_sign s) then - digits_val (snd (strip_sign s))
                  else digits_val (snd (strip_sign s)))"

text \<open>The validator library's \<^verbatim>\<open>isInt(str, {min, max})\<close>: the pattern, then the bounds on
  the number the string denotes.\<close>

definition isInt :: "int option \<Rightarrow> int option \<Rightarrow> string \<Rightarrow> bool" where
  "isInt lo hi s =
     (int_syntax s \<and>
      (case lo of None \<Rightarrow> True | Some l \<Rightarrow> l \<le> int_value s) \<and>
      (case hi of None \<Rightarrow> True | Some h \<Rightarrow> int_value s \<le> h))"

subsection \<open>Numbers\<close>

text \<open>A JavaScript number: an integer of magnitude at most \<open>2 ^ 53\<close>, which a double holds
  exactly (zero is positive zero); \<^verbatim>\<open>NaN\<close>; or any other double (negative zero, a fraction, a
  larger magnitude, an infinity), given by its 64 bits.\<close>

datatype jsnum = SafeInt int | NaN | Float nat

text \<open>What the servers take from the runtime and their libraries:
  \<^item> the validator library's \<^verbatim>\<open>isISO8601\<close> and \<^verbatim>\<open>isFloat\<close> (with its bounds);
  \<^item> the store's case-insensitive \<^verbatim>\<open>$regex\<close>: the matcher of a pattern, or \<open>None\<close> for a
    pattern the store refuses;
  \<^item> the numeric coercion \<^verbatim>\<open>Number(s)\<close> of a string that is no plain decimal integer numeral;
  \<^item> the double nearest to an integer beyond \<open>2 ^ 53\<close>, and the double arithmetic
    (subtraction, product, \<^verbatim>\<open>Math.ceil\<close> of a quotient, \<^verbatim>\<open><\<close>) where an operand or the result
    is no integer a double holds exactly;
  \<^item> what the store makes of a skip and a limit that are not both such integers: it
    refuses them (\<open>None\<close>), or skips some documents and returns at most so many (all of them
    for \<open>None\<close>).\<close>

record lib =
  isISO8601 :: "string \<Rightarrow> bool"
  isFloat :: "int \<Rightarrow> int option \<Rightarrow> string \<Rightarrow> bool"
  regexTest :: "string \<Rightarrow> (string \<Rightarrow> bool) option"
  toNumber :: "string \<Rightarrow> jsnum"
  float_of_int :: "int \<Rightarrow> jsnum"
  float_sub :: "jsnum \<Rightarrow> jsnum \<Rightarrow> jsnum"
  float_mul :: "jsnum \<Rightarrow> jsnum \<Rightarrow> jsnum"
  float_ceil_div :: "jsnum \<Rightarrow> jsnum \<Rightarrow> jsnum"
  float_less :: "jsnum \<Rightarrow> jsnum \<Rightarrow> bool"
  float_cursor :: "jsnum \<Rightarrow> jsnum \<Rightarrow> (nat \<times> nat option) option"

text \<open>Negative zero and the infinities are among the other doubles.\<close>

definition neg_zero :: jsnum where
  "neg_zero = Float 9223372036854775808"

definition pos_inf :: jsnum where
  "pos_inf = Float 9218868437227405312"

definition neg_inf :: jsnum where
  "neg_inf = Float 18442240474082181120"

definition js_of_int :: "lib \<Rightarrow> int \<Rightarrow> jsnum" where
  "js_of_int L n = (if \<bar>n\<bar> \<le> 9007199254740992 then SafeInt n else float_of_int L n)"

text \<open>The number with a sign and a magnitude read from a string.\<close>

definition js_signed :: "lib \<Rightarrow> bool \<Rightarrow> int \<Rightarrow> jsnum" where
  "js_signed L neg m = (if neg then (if m = 0 then neg_zero else js_of_int L (- m))
                        else js_of_int L m)"

text \<open>\<^verbatim>\<open>parseInt(string)\<close>, without a radix: leading white space, a sign, then the longest
  prefix of decimal digits (of hexadecimal digits after \<^verbatim>\<open>0x\<close>); \<^verbatim>\<open>NaN\<close> when there is no
  digit.\<close>

definition parseInt :: "lib \<Rightarrow> string \<Rightarrow> jsnum" where
  "parseInt L s =
     (let su = strip_sign (strip_ws ws_encodings 0 s)
      in case parse_magnitude (snd su) of
           None \<Rightarrow> NaN
         | Some m \<Rightarrow> js_signed L (fst su) m)"

text \<open>\<^verbatim>\<open>Number(s)\<close>, the coercion of a string operand of \<^verbatim>\<open>-\<close>, \<^verbatim>\<open>*\<close> and \<^verbatim>\<open>/\<close>.\<close>

definition js_Number :: "lib \<Rightarrow> string \<Rightarrow> jsnum" where
  "js_Number L s =
     (if int_syntax s then js_signed L (fst (strip_sign s)) (digits_val (snd (strip_sign s)))
      else toNumber L s)"

text \<open>A query parameter is absent, and then has the handler's default, or a string, which
  the handler coerces.\<close>

definition num_param :: "(string \<Rightarrow> jsnum) \<Rightarrow> int \<Rightarrow> string option \<Rightarrow> jsnum" where
  "num_param coerce d v = (case v of None \<Rightarrow> SafeInt d | Some s \<Rightarrow> coerce s)"

text \<open>\<^verbatim>\<open>a - b\<close> and \<^verbatim>\<open>a * b\<close>: the double nearest to the exact result; a product that is
  zero is negative zero when a factor is negative.\<close>

definition js_sub :: "lib \<Rightarrow> jsnum \<Rightarrow> jsnum \<Rightarrow> jsnum" where
  "js_sub L a b =
     (case a of
        SafeInt x \<Rightarrow> (case b of SafeInt y \<Rightarrow> js_of_int L (x - y) | NaN \<Rightarrow> NaN
                      | Float u \<Rightarrow> float_sub L a b)
      | NaN \<Rightarrow> NaN
      | Float u \<Rightarrow> (case b of NaN \<Rightarrow> NaN | _ \<Rightarrow> float_sub L a b))"

definition js_mul :: "lib \<Rightarrow> jsnum \<Rightarrow> jsnum \<Rightarrow> jsnum" where
  "js_mul L a b =
     (case a of
        SafeInt x \<Rightarrow> (case b of
                        SafeInt y \<Rightarrow> if x * y = 0 \<and> (x < 0 \<or> y < 0) then neg_zero
                                     else js_of_int L (x * y)
                      | NaN \<Rightarrow> NaN
                      | Float u \<Rightarrow> float_mul L a b)
      | NaN \<Rightarrow> NaN
      | Float u \<Rightarrow> (case b of NaN \<Rightarrow> NaN | _ \<Rightarrow> float_mul L a b))"

definition ceil_div :: "int \<Rightarrow> int \<Rightarrow> int" where
  "ceil_div a b = - ((- a) div b)"

text \<open>\<^verbatim>\<open>Math.ceil(a / b)\<close>. For an integer \<open>a\<close> below \<open>2 ^ 53\<close> in magnitude and an integer
  \<open>b \<noteq> 0\<close> the double quotient is within \<open>\<bar>a / b\<bar> / 2 ^ 53 < 1 / \<bar>b\<bar>\<close> of \<open>a / b\<close>, and
  \<open>1 / \<bar>b\<bar>\<close> is the least distance of a fraction \<open>a / b\<close> from an integer, so the ceiling of
  the double is the ceiling of \<open>a / b\<close>; a ceiling that is zero is negative zero when the
  quotient is negative. \<open>0 / 0\<close> is \<^verbatim>\<open>NaN\<close>, and \<open>a / 0\<close> is an infinity.\<close>

definition js_ceil_div :: "lib \<Rightarrow> jsnum \<Rightarrow> jsnum \<Rightarrow> jsnum" where
  "js_ceil_div L a b =
     (case a of
        SafeInt x \<Rightarrow>
          (case b of
             SafeInt y \<Rightarrow>
               if y = 0 then (if x = 0 then NaN else if 0 < x then pos_inf else neg_inf)
               else if \<bar>x\<bar> < 9007199254740992
               then (if ceil_div x y = 0 \<and> (x < 0) \<noteq> (y < 0) then neg_zero
                     else SafeInt (ceil_div x y))
               else float_ceil_div L a b
           | NaN \<Rightarrow> NaN
           | Float u \<Rightarrow> float_ceil_div L a b)
      | NaN \<Rightarrow> NaN
      | Float u \<Rightarrow> (case b of NaN \<Rightarrow> NaN | _ \<Rightarrow> float_ceil_div L a b))"

text \<open>\<^verbatim>\<open>a < b\<close>: false when an operand is \<^verbatim>\<open>NaN\<close>.\<close>

definition js_less :: "lib \<Rightarrow> jsnum \<Rightarrow> jsnum \<Rightarrow> bool" where
  "js_less L a b =
     (case a of
        SafeInt x \<Rightarrow> (case b of SafeInt y \<Rightarrow> x < y | NaN \<Rightarrow> False
                      | Float u \<Rightarrow> float_less L a b)
      | NaN \<Rightarrow> False
      | Float u \<Rightarrow> (case b of NaN \<Rightarrow> False | _ \<Rightarrow> float_less L a b))"

text \<open>A number in a JSON body: \<^verbatim>\<open>NaN\<close> and the infinities serialise as \<^verbatim>\<open>null\<close>, negative zero
  as \<^verbatim>\<open>0\<close>.\<close>

definition json_of_num :: "jsnum \<Rightarrow> json" where
  "json_of_num a =
     (case a of
        SafeInt n \<Rightarrow> JNum n
      | NaN \<Rightarrow> JNull
      | Float u \<Rightarrow> if Float u = neg_zero then JNum 0
                   else if Float u = pos_inf \<or> Float u = neg_inf then JNull else JDouble u)"

subsection \<open>Cursors and sorting\<close>

text \<open>A query cursor after \<^verbatim>\<open>sort\<close>: \<^verbatim>\<open>skip\<close> then \<^verbatim>\<open>limit\<close>, on integers. The store refuses a
  negative skip; limit 0 is no limit and a negative limit is its absolute value.\<close>

definition cursor_page :: "int \<Rightarrow> int \<Rightarrow> 'a list \<Rightarrow> 'a list option" where
  "cursor_page skip limit xs =
     (if skip < 0 then None
      else Some (let ys = drop (nat skip) xs in
                 if limit = 0 then ys else take (nat \<bar>limit\<bar>) ys))"

definition store_cursor :: "lib \<Rightarrow> jsnum \<Rightarrow> jsnum \<Rightarrow> 'a list \<Rightarrow> 'a list option" where
  "store_cursor L skip limit xs =
     (case (skip, limit) of
        (SafeInt s, SafeInt l) \<Rightarrow> cursor_page s l xs
      | _ \<Rightarrow> (case float_cursor L skip limit of
                None \<Rightarrow> None
              | Some (k, None) \<Rightarrow> Some (drop k xs)
              | Some (k, Some m) \<Rightarrow> Some (take m (drop k xs))))"

text \<open>\<^verbatim>\<open>sort({key: 1})\<close> and \<^verbatim>\<open>sort({key: -1})\<close>. Among documents with equal keys the order is
  that of the rank the runtime gives.\<close>

definition sort_asc :: "('a \<Rightarrow> nat) \<Rightarrow> ('a \<Rightarrow> 'k::linorder) \<Rightarrow> 'a list \<Rightarrow> 'a list" where
  "sort_asc rank key xs = sort_key (\<lambda>x. (key x, rank x)) xs"

definition sort_desc :: "('a \<Rightarrow> nat) \<Rightarrow> ('a \<Rightarrow> 'k::linorder) \<Rightarrow> 'a list \<Rightarrow> 'a list" where
  "sort_desc rank key xs = rev (sort_key (\<lambda>x. (key x, rank x)) xs)"

section \<open>The single-file server\<close>

subsection \<open>Schemas\<close>

record srv_user =
  u_id :: oid
  u_username :: string
  u_email :: string
  u_password :: string
  u_createdAt :: int
  u_isActive :: bool

record srv_task =
  t_id :: oid
  t_title :: string
  t_description :: "string option"
  t_priority :: string
  t_status :: string
  t_dueDate :: "int option"
  t_userId :: oid
  t_createdAt :: int
  t_updatedAt :: int

record srv_category =
  c_id :: oid
  c_name :: string
  c_description :: "string option"
  c_color :: string
  c_createdAt :: int

record srv_project =
  p_id :: oid
  p_name :: string
  p_description :: "string option"
  p_status :: string
  p_startDate :: int
  p_endDate :: "int option"
  p_userId :: oid
  p_tasks :: "oid list"
  p_createdAt :: int

record srv_store =
  users :: "srv_user list"
  tasks :: "srv_task list"
  categories :: "srv_category list"
  projects :: "srv_project list"

text \<open>The text of a validator message is the ODM's; the model keeps the path and the rule.\<close>

definition verr_message :: "string \<times> string \<Rightarrow> string" where
  "verr_message e = fst e @ '': '' @ snd e"

subsection \<open>Schema validators\<close>

text \<open>\<^verbatim>\<open>/^\S+@\S+\.\S+$/\<close>\<close>

definition srv_email_match :: "string \<Rightarrow> bool" where
  "srv_email_match s =
     (\<not> has_ws s \<and>
      list_ex (\<lambda>ar. fst ar \<noteq> [] \<and>
                    list_ex (\<lambda>bc. fst bc \<noteq> [] \<and> snd bc \<noteq> []) (splits_at (CHR ''.'') (snd ar)))
              (splits_at (CHR ''@'') s))"

definition check_minlength :: "string \<Rightarrow> nat \<Rightarrow> string \<Rightarrow> (string \<times> string) list" where
  "check_minlength path n v = (if js_length v < n then [(path, ''minlength'')] else [])"

definition check_maxlength :: "string \<Rightarrow> nat \<Rightarrow> string \<Rightarrow> (string \<times> string) list" where
  "check_maxlength path n v = (if n < js_length v then [(path, ''maxlength'')] else [])"

definition check_required :: "string \<Rightarrow> string \<Rightarrow> (string \<times> string) list" where
  "check_required path v = (if v = [] then [(path, ''required'')] else [])"

definition check_enum :: "string \<Rightarrow> string list \<Rightarrow> string \<Rightarrow> (string \<times> string) list" where
  "check_enum path vs v = (if v \<in> set vs then [] else [(path, ''enum'')])"

definition first_error :: "(string \<times> string) list list \<Rightarrow> (string \<times> string) list" where
  "first_error ess = take 1 (concat ess)"

definition srv_username_errors :: "string \<Rightarrow> (string \<times> string) list" where
  "srv_username_errors v =
     first_error [check_required ''username'' v, check_minlength ''username'' 3 v,
                  check_maxlength ''username'' 30 v]"

definition srv_email_errors :: "string \<Rightarrow> (string \<times> string) list" where
  "srv_email_errors v =
     first_error [check_required ''email'' v,
                  if srv_email_match v then [] else [(''email'', ''match'')]]"

definition srv_password_errors :: "string \<Rightarrow> (string \<times> string) list" where
  "srv_password_errors v =
     first_error [check_required ''password'' v, check_minlength ''password'' 6 v]"

subsection \<open>Documents as JSON\<close>

definition srv_user_toObject :: "srv_user \<Rightarrow> (string \<times> json) list" where
  "srv_user_toObject u =
     [(''_id'', JOid (u_id u)), (''username'', JStr (u_username u)), (''email'', JStr (u_email u)),
      (''password'', JStr (u_password u)), (''createdAt'', JDate (u_createdAt u)),
      (''isActive'', JBool (u_isActive u)), (''__v'', JNum 0)]"

text \<open>\<^verbatim>\<open>.select('-password')\<close>: the document is loaded without the path.\<close>

definition srv_user_select_no_password :: "srv_user \<Rightarrow> json" where
  "srv_user_select_no_password u =
     JObj [(''_id'', JOid (u_id u)), (''username'', JStr (u_username u)),
           (''email'', JStr (u_email u)), (''createdAt'', JDate (u_createdAt u)),
           (''isActive'', JBool (u_isActive u)), (''__v'', JNum 0)]"

definition srv_findById :: "('a \<Rightarrow> oid) \<Rightarrow> oid \<Rightarrow> 'a list \<Rightarrow> 'a option" where
  "srv_findById ident i xs = find (\<lambda>x. ident x = i) xs"

text \<open>\<^verbatim>\<open>.populate('userId', 'username email')\<close>: the reference is replaced by the user's
  chosen fields, or by \<^verbatim>\<open>null\<close> when no user has the id.\<close>

definition srv_populate_user :: "srv_user list \<Rightarrow> oid \<Rightarrow> json" where
  "srv_populate_user us i =
     (case srv_findById u_id i us of
        None \<Rightarrow> JNull
      | Some u \<Rightarrow> JObj [(''_id'', JOid (u_id u)), (''username'', JStr (u_username u)),
                        (''email'', JStr (u_email u))])"

definition srv_task_json :: "srv_user list \<Rightarrow> srv_task \<Rightarrow> json" where
  "srv_task_json us t =
     JObj ([(''_id'', JOid (t_id t)), (''title'', JStr (t_title t))]
           @ opt_field ''description'' JStr (t_description t)
           @ [(''priority'', JStr (t_priority t)), (''status'', JStr (t_status t))]
           @ opt_field ''dueDate'' JDate (t_dueDate t)
           @ [(''userId'', srv_populate_user us (t_userId t)),
              (''createdAt'', JDate (t_createdAt t)), (''updatedAt'', JDate (t_updatedAt t)),
              (''__v'', JNum 0)])"

text \<open>\<^verbatim>\<open>.populate('tasks', 'title status priority')\<close>: references without a task are dropped
  from the populated array.\<close>

definition srv_populate_tasks :: "srv_task list \<Rightarrow> oid list \<Rightarrow> json" where
  "srv_populate_tasks ts ids =
     JArr (concat (map (\<lambda>i. case srv_findById t_id i ts of
                               None \<Rightarrow> []
                             | Some t \<Rightarrow> [JObj [(''_id'', JOid (t_id t)), (''title'', JStr (t_title t)),
                                               (''status'', JStr (t_status t)),
                                               (''priority'', JStr (t_priority t))]]) ids))"

definition srv_project_json :: "srv_store \<Rightarrow> srv_project \<Rightarrow> json" where
  "srv_project_json st p =
     JObj ([(''_id'', JOid (p_id p)), (''name'', JStr (p_name p))]
           @ opt_field ''description'' JStr (p_description p)
           @ [(''status'', JStr (p_status p)), (''startDate'', JDate (p_startDate p))]
           @ opt_field ''endDate'' JDate (p_endDate p)
           @ [(''userId'', srv_populate_user (users st) (p_userId p)),
              (''tasks'', srv_populate_tasks (tasks st) (p_tasks p)),
              (''createdAt'', JDate (p_createdAt p)), (''__v'', JNum 0)])"

subsection \<open>The global error handler\<close>

definition srv_error_handler :: "odm_error \<Rightarrow> response" where
  "srv_error_handler err =
     (case err of
        ValidationError es \<Rightarrow>
          \<lparr>res_status = 400,
           res_body = JObj [(''success'', JBool False), (''message'', JStr ''Validation Error''),
                            (''errors'', JArr (map (\<lambda>e. JStr (verr_message e)) es))]\<rparr>
      | DuplicateKey field \<Rightarrow>
          \<lparr>res_status = 400,
           res_body = JObj [(''success'', JBool False),
                            (''message'', JStr (field @ '' already exists''))]\<rparr>
      | _ \<Rightarrow>
          \<lparr>res_status = 500,
           res_body = JObj [(''success'', JBool False),
                            (''message'', JStr ''Internal Server Error'')]\<rparr>)"

subsection \<open>Store operations\<close>

text \<open>\<^verbatim>\<open>findByIdAndUpdate\<close> and \<^verbatim>\<open>findByIdAndDelete\<close> act on the first document with the id.\<close>

fun update_first :: "('a \<Rightarrow> bool) \<Rightarrow> ('a \<Rightarrow> 'a) \<Rightarrow> 'a list \<Rightarrow> 'a list" where
  "update_first P f [] = []"
| "update_first P f (x # xs) = (if P x then f x # xs else x # update_first P f xs)"

fun delete_first :: "('a \<Rightarrow> bool) \<Rightarrow> 'a list \<Rightarrow> 'a list" where
  "delete_first P [] = []"
| "delete_first P (x # xs) = (if P x then xs else x # delete_first P xs)"

text \<open>\<^verbatim>\<open>new User({username, email, password}).save()\<close>: the schema validators, then the insert
  under the unique indexes on \<^verbatim>\<open>_id\<close>, \<^verbatim>\<open>username\<close> and \<^verbatim>\<open>email\<close>.\<close>

definition srv_save_user ::
  "env \<Rightarrow> string \<Rightarrow> string \<Rightarrow> string \<Rightarrow> srv_store \<Rightarrow> odm_error + (srv_user \<times> srv_store)" where
  "srv_save_user e username email password st =
     (let errs = srv_username_errors username @ srv_email_errors email
                 @ srv_password_errors password
      in if errs \<noteq> [] then Inl (ValidationError errs)
         else if newId e \<in> set (map u_id (users st)) then Inl (DuplicateKey ''_id'')
         else if username \<in> set (map u_username (users st)) then Inl (DuplicateKey ''username'')
         else if email \<in> set (map u_email (users st)) then Inl (DuplicateKey ''email'')
         else let u = \<lparr>u_id = newId e, u_username = username, u_email = email,
                        u_password = password, u_createdAt = now e, u_isActive = True\<rparr>
              in Inr (u, st\<lparr>users := users st @ [u]\<rparr>))"

subsection \<open>Users API\<close>

text \<open>The query string of the list endpoints; a parameter is absent or a string.\<close>

record srv_query =
  q_page :: "string option"
  q_limit :: "string option"
  q_status :: "string option"
  q_priority :: "string option"
  q_userId :: "raw_id option"

text \<open>\<^verbatim>\<open>limit * 1\<close> and \<^verbatim>\<open>(page - 1) * limit\<close>, on \<^verbatim>\<open>page = 1\<close> and \<^verbatim>\<open>limit = 10\<close> when the
  parameter is absent, and on the numeric coercion of the string otherwise.\<close>

definition srv_limit :: "lib \<Rightarrow> srv_query \<Rightarrow> jsnum" where
  "srv_limit L q = js_mul L (num_param (js_Number L) 10 (q_limit q)) (SafeInt 1)"

definition srv_skip :: "lib \<Rightarrow> srv_query \<Rightarrow> jsnum" where
  "srv_skip L q =
     js_mul L (js_sub L (num_param (js_Number L) 1 (q_page q)) (SafeInt 1))
              (num_param (js_Number L) 10 (q_limit q))"

text \<open>The pagination object: \<^verbatim>\<open>parseInt(page)\<close>, \<^verbatim>\<open>parseInt(limit)\<close>, the count and
  \<^verbatim>\<open>Math.ceil(total / limit)\<close>.\<close>

definition srv_pagination :: "lib \<Rightarrow> srv_query \<Rightarrow> nat \<Rightarrow> json" where
  "srv_pagination L q n =
     JObj [(''page'', json_of_num (num_param (parseInt L) 1 (q_page q))),
           (''limit'', json_of_num (num_param (parseInt L) 10 (q_limit q))),
           (''total'', JNum (int n)),
           (''pages'', json_of_num (js_ceil_div L (SafeInt (int n))
                                      (num_param (js_Number L) 10 (q_limit q))))]"

definition srv_list_json :: "json list \<Rightarrow> json \<Rightarrow> response" where
  "srv_list_json docs pagination =
     \<lparr>res_status = 200,
      res_body = JObj [(''success'', JBool True), (''data'', JArr docs),
                       (''pagination'', pagination)]\<rparr>"

text \<open>A query filter on \<^verbatim>\<open>userId\<close> holding a string that is no ObjectId fails the cast.\<close>

definition srv_cast_userId :: "raw_id option \<Rightarrow> bool" where
  "srv_cast_userId v = (case v of Some (NotAnId s) \<Rightarrow> s = [] | _ \<Rightarrow> True)"

definition srv_userId_is :: "raw_id option \<Rightarrow> oid \<Rightarrow> bool" where
  "srv_userId_is v i = (case v of Some (Id j) \<Rightarrow> i = j | _ \<Rightarrow> True)"

text \<open>\<^verbatim>\<open>GET /api/users\<close>\<close>

definition srv_users_query :: "srv_query \<Rightarrow> srv_user \<Rightarrow> bool" where
  "srv_users_query q u =
     (if truthy (q_status q) then u_isActive u = (q_status q = Some ''active'') else True)"

definition srv_get_users :: "env \<Rightarrow> lib \<Rightarrow> srv_query \<Rightarrow> srv_store \<Rightarrow> response" where
  "srv_get_users e L q st =
     (let found = filter (srv_users_query q) (users st)
      in case store_cursor L (srv_skip L q) (srv_limit L q)
                (sort_desc (\<lambda>u. tieRank e (u_id u)) u_createdAt found) of
           None \<Rightarrow> srv_error_handler OtherError
         | Some us \<Rightarrow>
             srv_list_json (map srv_user_select_no_password us)
               (srv_pagination L q (length found)))"

text \<open>\<^verbatim>\<open>POST /api/users\<close>\<close>

record srv_user_body =
  b_username :: "string option"
  b_email :: "string option"
  b_password :: "string option"

definition srv_post_users :: "env \<Rightarrow> srv_user_body \<Rightarrow> srv_store \<Rightarrow> response \<times> srv_store" where
  "srv_post_users e b st =
     (if \<not> truthy (b_username b) \<or> \<not> truthy (b_email b) \<or> \<not> truthy (b_password b)
      then (fail_json 400 ''Username, email, and password are required'', st)
      else case srv_save_user e (str_of (b_username b)) (str_of (b_email b))
                  (str_of (b_password b)) st of
             Inl err \<Rightarrow> (srv_error_handler err, st)
           | Inr (user, st') \<Rightarrow>
               (\<lparr>res_status = 201,
                 res_body = JObj [(''success'', JBool True),
                                  (''message'', JStr ''User created successfully''),
                                  (''data'', JObj (jdelete ''password'' (srv_user_toObject user)))]\<rparr>,
                st'))"

text \<open>\<^verbatim>\<open>PUT /api/users/:id\<close>: the id is cast, the update validators run on the paths the body
  sets, then the store looks the document up and applies the update under the unique
  indexes.\<close>

record srv_user_update =
  up_username :: "string option"
  up_email :: "string option"
  up_isActive :: "bool option"

definition srv_apply_user_update :: "srv_user_update \<Rightarrow> srv_user \<Rightarrow> srv_user" where
  "srv_apply_user_update b u =
     u\<lparr>u_username := (case up_username b of None \<Rightarrow> u_username u | Some v \<Rightarrow> v),
       u_email := (case up_email b of None \<Rightarrow> u_email u | Some v \<Rightarrow> v),
       u_isActive := (case up_isActive b of None \<Rightarrow> u_isActive u | Some v \<Rightarrow> v)\<rparr>"

definition srv_put_users :: "raw_id \<Rightarrow> srv_user_update \<Rightarrow> srv_store \<Rightarrow> response \<times> srv_store" where
  "srv_put_users r b st =
     (case r of
        NotAnId s \<Rightarrow> (srv_error_handler CastError, st)
      | Id i \<Rightarrow>
     (let errs = (case up_username b of None \<Rightarrow> [] | Some v \<Rightarrow> srv_username_errors v)
                 @ (case up_email b of None \<Rightarrow> [] | Some v \<Rightarrow> srv_email_errors v)
      in if errs \<noteq> [] then (srv_error_handler (ValidationError errs), st)
         else case srv_findById u_id i (users st) of
                None \<Rightarrow> (fail_json 404 ''User not found'', st)
              | Some u \<Rightarrow>
                  let others = delete_first (\<lambda>x. u_id x = i) (users st);
                      u' = srv_apply_user_update b u
                  in if u_username u' \<in> set (map u_username others)
                     then (srv_error_handler (DuplicateKey ''username''), st)
                     else if u_email u' \<in> set (map u_email others)
                     then (srv_error_handler (DuplicateKey ''email''), st)
                     else (\<lparr>res_status = 200,
                            res_body = JObj [(''success'', JBool True),
                                             (''message'', JStr ''User updated successfully''),
                                             (''data'', srv_user_select_no_password u')]\<rparr>,
                           st\<lparr>users := update_first (\<lambda>x. u_id x = i) (\<lambda>_. u') (users st)\<rparr>)))"

text \<open>\<^verbatim>\<open>DELETE /api/users/:id\<close>: a path parameter that is no ObjectId fails the cast in
  \<^verbatim>\<open>findByIdAndDelete\<close>, and the error reaches the global error handler.\<close>

definition srv_delete_users :: "raw_id \<Rightarrow> srv_store \<Rightarrow> response \<times> srv_store" where
  "srv_delete_users r st =
     (case r of
        NotAnId s \<Rightarrow> (srv_error_handler CastError, st)
      | Id i \<Rightarrow>
     (case srv_findById u_id i (users st) of
        None \<Rightarrow> (fail_json 404 ''User not found'', st)
      | Some user \<Rightarrow>
          let st1 = st\<lparr>users := delete_first (\<lambda>x. u_id x = i) (users st)\<rparr>;
              st2 = st1\<lparr>tasks := filter (\<lambda>t. t_userId t \<noteq> i) (tasks st1)\<rparr>;
              st3 = st2\<lparr>projects := filter (\<lambda>p. p_userId p \<noteq> i) (projects st2)\<rparr>
          in (\<lparr>res_status = 200,
                res_body = JObj [(''success'', JBool True),
                                 (''message'',
                                  JStr ''User and associated data deleted successfully'')]\<rparr>,
              st3)))"

subsection \<open>Tasks API\<close>

text \<open>\<^verbatim>\<open>GET /api/tasks\<close>\<close>

definition srv_tasks_query :: "srv_query \<Rightarrow> srv_task \<Rightarrow> bool" where
  "srv_tasks_query q t =
     ((if truthy (q_status q) then Some (t_status t) = q_status q else True) \<and>
      (if truthy (q_priority q) then Some (t_priority t) = q_priority q else True) \<and>
      srv_userId_is (q_userId q) (t_userId t))"

definition srv_get_tasks :: "env \<Rightarrow> lib \<Rightarrow> srv_query \<Rightarrow> srv_store \<Rightarrow> response" where
  "srv_get_tasks e L q st =
     (if \<not> srv_cast_userId (q_userId q) then srv_error_handler CastError
      else let found = filter (srv_tasks_query q) (tasks st)
      in case store_cursor L (srv_skip L q) (srv_limit L q)
                (sort_desc (\<lambda>t. tieRank e (t_id t)) t_createdAt found) of
           None \<Rightarrow> srv_error_handler OtherError
         | Some ts \<Rightarrow>
             srv_list_json (map (srv_task_json (users st)) ts)
               (srv_pagination L q (length found)))"

text \<open>\<^verbatim>\<open>POST /api/tasks\<close>. The body's \<^verbatim>\<open>userId\<close> is absent, an ObjectId or another string;
  \<^verbatim>\<open>User.findById\<close> fails the cast of a string that is no ObjectId, and the error reaches the
  global error handler.\<close>

record srv_task_body =
  tb_title :: "string option"
  tb_description :: "string option"
  tb_priority :: "string option"
  tb_status :: "string option"
  tb_dueDate :: "string option"
  tb_userId :: "raw_id option"

text \<open>\<^verbatim>\<open>dueDate ? new Date(dueDate) : undefined\<close>, cast by the schema: an Invalid Date fails
  the cast, which \<^verbatim>\<open>save\<close> reports as a validation error on the path.\<close>

definition srv_date_field ::
  "env \<Rightarrow> string \<Rightarrow> string option \<Rightarrow> (string \<times> string) list \<times> int option" where
  "srv_date_field e path v =
     (if truthy v
      then (case parseDate e (str_of v) of
              None \<Rightarrow> ([(path, ''cast'')], None)
            | Some d \<Rightarrow> ([], Some d))
      else ([], None))"

definition srv_opt_errors ::
  "(string \<Rightarrow> (string \<times> string) list) \<Rightarrow> string option \<Rightarrow> (string \<times> string) list" where
  "srv_opt_errors chk v = (case v of None \<Rightarrow> [] | Some s \<Rightarrow> chk s)"

definition srv_save_task ::
  "env \<Rightarrow> srv_task_body \<Rightarrow> oid \<Rightarrow> srv_store \<Rightarrow> odm_error + (srv_task \<times> srv_store)" where
  "srv_save_task e b uid st =
     (let due = srv_date_field e ''dueDate'' (tb_dueDate b);
          priority = (case tb_priority b of None \<Rightarrow> ''medium'' | Some v \<Rightarrow> v);
          status = (case tb_status b of None \<Rightarrow> ''pending'' | Some v \<Rightarrow> v);
          errs = first_error [check_required ''title'' (str_of (tb_title b)),
                              check_maxlength ''title'' 200 (str_of (tb_title b))]
                 @ srv_opt_errors (check_maxlength ''description'' 1000) (tb_description b)
                 @ check_enum ''priority'' [''low'', ''medium'', ''high''] priority
                 @ check_enum ''status'' [''pending'', ''in-progress'', ''completed''] status
                 @ fst due
      in if errs \<noteq> [] then Inl (ValidationError errs)
         else if newId e \<in> set (map t_id (tasks st)) then Inl (DuplicateKey ''_id'')
         else let t = \<lparr>t_id = newId e, t_title = str_of (tb_title b),
                        t_description = tb_description b, t_priority = priority,
                        t_status = status, t_dueDate = snd due, t_userId = uid,
                        t_createdAt = now e, t_updatedAt = now e\<rparr>
              in Inr (t, st\<lparr>tasks := tasks st @ [t]\<rparr>))"

definition srv_post_tasks :: "env \<Rightarrow> srv_task_body \<Rightarrow> srv_store \<Rightarrow> response \<times> srv_store" where
  "srv_post_tasks e b st =
     (if \<not> truthy (tb_title b) \<or> \<not> truthy_id (tb_userId b)
      then (fail_json 400 ''Title and userId are required'', st)
      else case tb_userId b of
             None \<Rightarrow> (fail_json 400 ''Title and userId are required'', st)
           | Some (NotAnId s) \<Rightarrow> (srv_error_handler CastError, st)
           | Some (Id userId) \<Rightarrow>
               (case srv_findById u_id userId (users st) of
                  None \<Rightarrow> (fail_json 400 ''Invalid userId'', st)
                | Some user \<Rightarrow>
                    (case srv_save_task e b userId st of
                       Inl err \<Rightarrow> (srv_error_handler err, st)
                     | Inr (task, st') \<Rightarrow>
                         (\<lparr>res_status = 201,
                           res_body = JObj [(''success'', JBool True),
                                            (''message'', JStr ''Task created successfully''),
                                            (''data'', srv_task_json (users st') task)]\<rparr>,
                          st'))))"

subsection \<open>Projects API\<close>

text \<open>\<^verbatim>\<open>GET /api/projects\<close>\<close>

definition srv_projects_query :: "srv_query \<Rightarrow> srv_project \<Rightarrow> bool" where
  "srv_projects_query q p =
     ((if truthy (q_status q) then Some (p_status p) = q_status q else True) \<and>
      srv_userId_is (q_userId q) (p_userId p))"

definition srv_get_projects :: "env \<Rightarrow> lib \<Rightarrow> srv_query \<Rightarrow> srv_store \<Rightarrow> response" where
  "srv_get_projects e L q st =
     (if \<not> srv_cast_userId (q_userId q) then srv_error_handler CastError
      else let found = filter (srv_projects_query q) (projects st)
      in case store_cursor L (srv_skip L q) (srv_limit L q)
                (sort_desc (\<lambda>p. tieRank e (p_id p)) p_createdAt found) of
           None \<Rightarrow> srv_error_handler OtherError
         | Some ps \<Rightarrow>
             srv_list_json (map (srv_project_json st) ps)
               (srv_pagination L q (length found)))"

section \<open>The modular server: models\<close>

subsection \<open>\<^verbatim>\<open>models/User.js\<close>\<close>

record notifications =
  nt_email :: bool
  nt_push :: bool
  nt_taskAssigned :: bool
  nt_taskDue :: bool

record preferences =
  pf_theme :: string
  pf_notifications :: notifications
  pf_timezone :: string

record user =
  usr_id :: oid
  usr_name :: string
  usr_email :: string
  usr_password :: string
  usr_role :: string
  usr_avatar :: string
  usr_department :: "string option"
  usr_position :: "string option"
  usr_phone :: "string option"
  usr_isActive :: bool
  usr_lastLogin :: "int option"
  usr_preferences :: preferences
  usr_createdAt :: int
  usr_updatedAt :: int

definition preferences_json :: "preferences \<Rightarrow> json" where
  "preferences_json p =
     JObj [(''theme'', JStr (pf_theme p)),
           (''notifications'',
            JObj [(''email'', JBool (nt_email (pf_notifications p))),
                  (''push'', JBool (nt_push (pf_notifications p))),
                  (''taskAssigned'', JBool (nt_taskAssigned (pf_notifications p))),
                  (''taskDue'', JBool (nt_taskDue (pf_notifications p)))]),
           (''timezone'', JStr (pf_timezone p))]"

text \<open>The stored paths of a user document, \<^verbatim>\<open>password\<close> among them.\<close>

definition user_paths :: "user \<Rightarrow> (string \<times> json) list" where
  "user_paths u =
     [(''_id'', JOid (usr_id u)), (''name'', JStr (usr_name u)), (''email'', JStr (usr_email u)),
      (''password'', JStr (usr_password u)), (''role'', JStr (usr_role u)),
      (''avatar'', JStr (usr_avatar u))]
     @ opt_field ''department'' JStr (usr_department u)
     @ opt_field ''position'' JStr (usr_position u)
     @ opt_field ''phone'' JStr (usr_phone u)
     @ [(''isActive'', JBool (usr_isActive u))]
     @ opt_field ''lastLogin'' JDate (usr_lastLogin u)
     @ [(''preferences'', preferences_json (usr_preferences u)),
        (''createdAt'', JDate (usr_createdAt u)), (''updatedAt'', JDate (usr_updatedAt u)),
        (''__v'', JNum 0)]"

text \<open>What a query loads of a user. \<^verbatim>\<open>password\<close> is declared \<^verbatim>\<open>select: false\<close>: the default
  projection and \<^verbatim>\<open>.select('-password')\<close> leave it out; an inclusive projection such as
  \<^verbatim>\<open>'name email'\<close> loads \<^verbatim>\<open>_id\<close> and the named paths; \<open>Everything\<close> is the document in memory
  after \<^verbatim>\<open>new User(...)\<close> or \<^verbatim>\<open>.select('+password')\<close>.\<close>

datatype projection = Default | Excluding "string list" | Including "string list" | Everything

definition user_load :: "projection \<Rightarrow> user \<Rightarrow> (string \<times> json) list" where
  "user_load p u =
     (case p of
        Default \<Rightarrow> filter (\<lambda>kv. fst kv \<noteq> ''password'') (user_paths u)
      | Excluding ks \<Rightarrow>
          filter (\<lambda>kv. fst kv \<noteq> ''password'' \<and> fst kv \<notin> set ks) (user_paths u)
      | Including ks \<Rightarrow> filter (\<lambda>kv. fst kv = ''_id'' \<or> fst kv \<in> set ks) (user_paths u)
      | Everything \<Rightarrow> user_paths u)"

text \<open>The virtuals \<^verbatim>\<open>displayName\<close>, \<^verbatim>\<open>initials\<close> (given for names of ASCII characters) and
  the built-in \<^verbatim>\<open>id\<close>; \<^verbatim>\<open>taskCount\<close> is a populate virtual and is absent unless populated.\<close>

definition initials :: "string \<Rightarrow> string" where
  "initials name = map to_upper (concat (map (take 1) (split_spaces name)))"

definition user_virtuals :: "user \<Rightarrow> (string \<times> json) list" where
  "user_virtuals u =
     [(''displayName'', JStr (usr_name u)), (''initials'', JStr (initials (usr_name u))),
      (''id'', JOid (usr_id u))]"

text \<open>\<^verbatim>\<open>toObject\<close> (\<^verbatim>\<open>virtuals: true\<close>), and \<^verbatim>\<open>toJSON\<close> with its transform
  \<^verbatim>\<open>delete ret.password\<close>.\<close>

definition user_toObject :: "projection \<Rightarrow> user \<Rightarrow> (string \<times> json) list" where
  "user_toObject p u = user_load p u @ user_virtuals u"

definition user_toJSON :: "projection \<Rightarrow> user \<Rightarrow> json" where
  "user_toJSON p u = JObj (jdelete ''password'' (user_toObject p u))"

definition getPublicProfile :: "projection \<Rightarrow> user \<Rightarrow> json" where
  "getPublicProfile p u = JObj (jdelete ''password'' (user_toObject p u))"

text \<open>\<^verbatim>\<open>findActiveUsers\<close>: \<^verbatim>\<open>find({isActive: true}).select('-password')\<close>, as the documents
  are serialised.\<close>

definition findActiveUsers :: "user list \<Rightarrow> json list" where
  "findActiveUsers us = map (user_toJSON (Excluding [])) (filter usr_isActive us)"

subsection \<open>\<^verbatim>\<open>models/Task.js\<close>\<close>

record attachment =
  at_filename :: "string option"
  at_url :: "string option"
  at_uploadDate :: int

text \<open>\<^verbatim>\<open>estimatedHours\<close> and \<^verbatim>\<open>actualHours\<close> are numbers that no route sets.\<close>

record task =
  tk_id :: oid
  tk_title :: string
  tk_description :: "string option"
  tk_status :: string
  tk_priority :: string
  tk_category :: string
  tk_dueDate :: "int option"
  tk_assignedTo :: "oid option"
  tk_tags :: "string list"
  tk_attachments :: "attachment list"
  tk_completedAt :: "int option"
  tk_estimatedHours :: "int option"
  tk_actualHours :: "int option"
  tk_createdAt :: int
  tk_updatedAt :: int

record store =
  st_users :: "user list"
  st_tasks :: "task list"

text \<open>A JavaScript value as a virtual's getter returns it.\<close>

datatype jsval = Undefined | Boolean bool | Number int

text \<open>\<^verbatim>\<open>Math.floor((new Date() - this.createdAt) / (1000 * 60 * 60 * 24))\<close>\<close>

definition ageInDays :: "env \<Rightarrow> task \<Rightarrow> jsval" where
  "ageInDays e t = Number ((now e - tk_createdAt t) div (1000 * 60 * 60 * 24))"

text \<open>\<^verbatim>\<open>this.dueDate && this.dueDate < new Date() && this.status !== 'completed'\<close>: the value of
  \<^verbatim>\<open>&&\<close> is its first falsy operand, so without a due date it is \<^verbatim>\<open>undefined\<close>; a Date is
  truthy.\<close>

definition isOverdue :: "env \<Rightarrow> task \<Rightarrow> jsval" where
  "isOverdue e t =
     (case tk_dueDate t of
        None \<Rightarrow> Undefined
      | Some d \<Rightarrow> if d < now e then Boolean (tk_status t \<noteq> ''completed'') else Boolean False)"

text \<open>The pre-save middleware; \<open>modified\<close> is \<^verbatim>\<open>this.isModified('status')\<close>.\<close>

definition pre_save :: "env \<Rightarrow> bool \<Rightarrow> task \<Rightarrow> task" where
  "pre_save e modified t =
     (if modified
      then (if tk_status t = ''completed'' \<and> tk_completedAt t = None
            then t\<lparr>tk_completedAt := Some (now e)\<rparr>
            else if tk_status t \<noteq> ''completed'' \<and> tk_completedAt t \<noteq> None
            then t\<lparr>tk_completedAt := None\<rparr>
            else t)
      else t)"

text \<open>The schema's validators on the paths a write sets. One error is reported per path.\<close>

definition title_errors :: "string \<Rightarrow> (string \<times> string) list" where
  "title_errors v = first_error [check_required ''title'' v, check_maxlength ''title'' 100 v]"

definition status_values :: "string list" where
  "status_values = [''pending'', ''in-progress'', ''completed'', ''cancelled'']"

definition priority_values :: "string list" where
  "priority_values = [''low'', ''medium'', ''high'', ''urgent'']"

definition category_values :: "string list" where
  "category_values = [''work'', ''personal'', ''shopping'', ''health'', ''education'', ''other'']"

text \<open>\<^verbatim>\<open>validator: function(date) { return !date || date > new Date(); }\<close>\<close>

definition dueDate_errors :: "env \<Rightarrow> int option \<Rightarrow> (string \<times> string) list" where
  "dueDate_errors e v =
     (case v of None \<Rightarrow> [] | Some d \<Rightarrow> if now e < d then [] else [(''dueDate'', ''user defined'')])"

definition tags_errors :: "string list \<Rightarrow> (string \<times> string) list" where
  "tags_errors ts =
     concat (map (\<lambda>it. check_maxlength (''tags.'' @ show_nat (fst it)) 20 (snd it))
                 (zip [0..<length ts] ts))"

section \<open>The modular server: \<^verbatim>\<open>middleware/validation.js\<close>\<close>

text \<open>
  The fields of a request are typed: a text field or a query parameter is absent or a
  string, \<^verbatim>\<open>tags\<close> an array of strings, and a field that should hold an id is an ObjectId or
  some other string.
\<close>

record task_body =
  bd_title :: "string option"
  bd_description :: "string option"
  bd_status :: "string option"
  bd_priority :: "string option"
  bd_category :: "string option"
  bd_dueDate :: "string option"
  bd_assignedTo :: "raw_id option"
  bd_tags :: "string list option"
  bd_estimatedHours :: "string option"
  bd_actualHours :: "string option"

record task_query =
  tq_page :: "string option"
  tq_limit :: "string option"
  tq_status :: "string option"
  tq_priority :: "string option"
  tq_category :: "string option"
  tq_assignedTo :: "raw_id option"
  tq_search :: "string option"
  tq_sortBy :: "string option"
  tq_sortOrder :: "string option"
  tq_overdue :: "string option"

text \<open>An error of the validator library: the field's path, the message, the value.\<close>

record validation_error =
  ve_path :: string
  ve_msg :: string
  ve_value :: "json option"

text \<open>A validation chain: the field instances it selects in the request (one for a plain
  field, one per element for the wildcard \<^verbatim>\<open>tags.*\<close>), whether it is \<^verbatim>\<open>.optional()\<close> (skipped
  when the value is \<^verbatim>\<open>undefined\<close>), and its validators in order, each with its message. No
  chain of the file uses \<^verbatim>\<open>.bail()\<close>: every validator of a chain runs and every failure is
  recorded.\<close>

record 'r chain =
  ch_select :: "'r \<Rightarrow> (string \<times> json option) list"
  ch_optional :: bool
  ch_validators :: "((json option \<Rightarrow> bool) \<times> string) list"

definition run_validators ::
  "((json option \<Rightarrow> bool) \<times> string) list \<Rightarrow> string \<times> json option \<Rightarrow> validation_error list" where
  "run_validators vs inst =
     map (\<lambda>vm. \<lparr>ve_path = fst inst, ve_msg = snd vm, ve_value = snd inst\<rparr>)
         (filter (\<lambda>vm. \<not> fst vm (snd inst)) vs)"

definition run_chain :: "'r chain \<Rightarrow> 'r \<Rightarrow> validation_error list" where
  "run_chain c req =
     concat (map (\<lambda>inst. if ch_optional c \<and> snd inst = None then []
                          else run_validators (ch_validators c) inst)
                 (ch_select c req))"

text \<open>\<^verbatim>\<open>validationResult(req).array()\<close> after the chains of a route have run.\<close>

definition validationResult :: "'r chain list \<Rightarrow> 'r \<Rightarrow> validation_error list" where
  "validationResult rules req = concat (map (\<lambda>c. run_chain c req) rules)"

text \<open>The string a standard validator sees.\<close>

definition to_str :: "json option \<Rightarrow> string" where
  "to_str v = (case v of Some (JStr s) \<Rightarrow> s | _ \<Rightarrow> [])"

definition notEmpty :: "json option \<Rightarrow> bool" where
  "notEmpty v = (to_str v \<noteq> [])"

text \<open>\<^verbatim>\<open>isLength\<close> counts the code points of the string, the variation selectors U+FE0E and
  U+FE0F left out.\<close>

fun count_selectors :: "string \<Rightarrow> nat" where
  "count_selectors [] = 0"
| "count_selectors (c # cs) =
     (if c = CHR 0xEF \<and> (take 2 cs = [CHR 0xB8, CHR 0x8E] \<or> take 2 cs = [CHR 0xB8, CHR 0x8F])
      then 1 else 0) + count_selectors cs"

definition val_length :: "string \<Rightarrow> nat" where
  "val_length s = cp_length s - count_selectors s"

definition isLength :: "nat \<Rightarrow> nat option \<Rightarrow> json option \<Rightarrow> bool" where
  "isLength lo hi v =
     (lo \<le> val_length (to_str v) \<and>
      (case hi of None \<Rightarrow> True | Some h \<Rightarrow> val_length (to_str v) \<le> h))"

definition isIn :: "string list \<Rightarrow> json option \<Rightarrow> bool" where
  "isIn vs v = (to_str v \<in> set vs)"

definition isMongoId :: "json option \<Rightarrow> bool" where
  "isMongoId v = (case v of Some (JOid i) \<Rightarrow> True | _ \<Rightarrow> False)"

definition isArray :: "json option \<Rightarrow> bool" where
  "isArray v = (case v of Some (JArr xs) \<Rightarrow> True | _ \<Rightarrow> False)"

text \<open>The custom validator of \<^verbatim>\<open>dueDate\<close>: it throws when
  \<^verbatim>\<open>new Date(value) <= new Date()\<close>, which is false for an Invalid Date.\<close>

definition futureDate :: "env \<Rightarrow> json option \<Rightarrow> bool" where
  "futureDate e v = (case parseDate e (to_str v) of None \<Rightarrow> True | Some d \<Rightarrow> now e < d)"

definition text_field :: "string \<Rightarrow> ('r \<Rightarrow> string option) \<Rightarrow> 'r \<Rightarrow> (string \<times> json option) list" where
  "text_field name get req = [(name, map_option JStr (get req))]"

definition id_field :: "string \<Rightarrow> ('r \<Rightarrow> raw_id option) \<Rightarrow> 'r \<Rightarrow> (string \<times> json option) list" where
  "id_field name get req = [(name, map_option raw_id_json (get req))]"

definition tags_field :: "task_body \<Rightarrow> (string \<times> json option) list" where
  "tags_field b = [(''tags'', map_option (\<lambda>ts. JArr (map JStr ts)) (bd_tags b))]"

definition tags_items :: "task_body \<Rightarrow> (string \<times> json option) list" where
  "tags_items b =
     (case bd_tags b of
        None \<Rightarrow> []
      | Some ts \<Rightarrow> map (\<lambda>it. (''tags['' @ show_nat (fst it) @ '']'', Some (JStr (snd it))))
                       (zip [0..<length ts] ts))"

text \<open>The chains that \<^verbatim>\<open>create\<close> and \<^verbatim>\<open>update\<close> share, from \<^verbatim>\<open>description\<close> on.\<close>

definition task_common_rules :: "env \<Rightarrow> lib \<Rightarrow> bool \<Rightarrow> task_body chain list" where
  "task_common_rules e L creating =
     [\<lparr>ch_select = text_field ''description'' bd_description, ch_optional = True,
       ch_validators = [(isLength 0 (Some 500), ''Description cannot exceed 500 characters'')]\<rparr>,
      \<lparr>ch_select = text_field ''status'' bd_status, ch_optional = True,
       ch_validators = [(isIn status_values,
                         ''Status must be pending, in-progress, completed, or cancelled'')]\<rparr>,
      \<lparr>ch_select = text_field ''priority'' bd_priority, ch_optional = True,
       ch_validators = [(isIn priority_values,
                         ''Priority must be low, medium, high, or urgent'')]\<rparr>,
      \<lparr>ch_select = text_field ''category'' bd_category, ch_optional = True,
       ch_validators = [(isIn category_values,
                         ''Category must be work, personal, shopping, health, education, or other'')]\<rparr>,
      \<lparr>ch_select = text_field ''dueDate'' bd_dueDate, ch_optional = True,
       ch_validators = (\<lambda>v. isISO8601 L (to_str v), ''Due date must be a valid date'')
                       # (if creating then [(futureDate e, ''Due date must be in the future'')]
                          else [])\<rparr>,
      \<lparr>ch_select = id_field ''assignedTo'' bd_assignedTo, ch_optional = True,
       ch_validators = [(isMongoId, ''Assigned user ID must be a valid MongoDB ObjectId'')]\<rparr>,
      \<lparr>ch_select = tags_field, ch_optional = True,
       ch_validators = [(isArray, ''Tags must be an array'')]\<rparr>,
      \<lparr>ch_select = tags_items, ch_optional = True,
       ch_validators = [(isLength 1 (Some 20), ''Each tag must be between 1 and 20 characters'')]\<rparr>,
      \<lparr>ch_select = text_field ''estimatedHours'' bd_estimatedHours, ch_optional = True,
       ch_validators = [(\<lambda>v. isFloat L 0 (Some 1000) (to_str v),
                         ''Estimated hours must be between 0 and 1000'')]\<rparr>,
      \<lparr>ch_select = text_field ''actualHours'' bd_actualHours, ch_optional = True,
       ch_validators = [(\<lambda>v. isFloat L 0 None (to_str v),
                         ''Actual hours must be non-negative'')]\<rparr>]"

definition taskValidationRules_create :: "env \<Rightarrow> lib \<Rightarrow> task_body chain list" where
  "taskValidationRules_create e L =
     \<lparr>ch_select = text_field ''title'' bd_title, ch_optional = False,
      ch_validators = [(notEmpty, ''Title is required''),
                       (isLength 1 (Some 100), ''Title must be between 1 and 100 characters'')]\<rparr>
     # task_common_rules e L True"

text \<open>The request of \<^verbatim>\<open>update\<close> is the \<^verbatim>\<open>id\<close> parameter and the body.\<close>

definition on_body :: "task_body chain \<Rightarrow> (raw_id \<times> task_body) chain" where
  "on_body c = \<lparr>ch_select = (\<lambda>req. ch_select c (snd req)), ch_optional = ch_optional c,
               ch_validators = ch_validators c\<rparr>"

definition taskValidationRules_update :: "env \<Rightarrow> lib \<Rightarrow> (raw_id \<times> task_body) chain list" where
  "taskValidationRules_update e L =
     \<lparr>ch_select = (\<lambda>req. [(''id'', Some (raw_id_json (fst req)))]), ch_optional = False,
      ch_validators = [(isMongoId, ''Task ID must be a valid MongoDB ObjectId'')]\<rparr>
     # on_body \<lparr>ch_select = text_field ''title'' bd_title, ch_optional = True,
                ch_validators = [(notEmpty, ''Title cannot be empty''),
                                 (isLength 1 (Some 100),
                                  ''Title must be between 1 and 100 characters'')]\<rparr>
     # map on_body (task_common_rules e L False)"

definition taskValidationRules_query :: "task_query chain list" where
  "taskValidationRules_query =
     [\<lparr>ch_select = text_field ''page'' tq_page, ch_optional = True,
       ch_validators = [(\<lambda>v. isInt (Some 1) None (to_str v), ''Page must be a positive integer'')]\<rparr>,
      \<lparr>ch_select = text_field ''limit'' tq_limit, ch_optional = True,
       ch_validators = [(\<lambda>v. isInt (Some 1) (Some 100) (to_str v),
                         ''Limit must be between 1 and 100'')]\<rparr>,
      \<lparr>ch_select = text_field ''status'' tq_status, ch_optional = True,
       ch_validators = [(isIn status_values,
                         ''Status must be pending, in-progress, completed, or cancelled'')]\<rparr>,
      \<lparr>ch_select = text_field ''priority'' tq_priority, ch_optional = True,
       ch_validators = [(isIn priority_values,
                         ''Priority must be low, medium, high, or urgent'')]\<rparr>,
      \<lparr>ch_select = text_field ''category'' tq_category, ch_optional = True,
       ch_validators = [(isIn category_values,
                         ''Category must be work, personal, shopping, health, education, or other'')]\<rparr>,
      \<lparr>ch_select = id_field ''assignedTo'' tq_assignedTo, ch_optional = True,
       ch_validators = [(isMongoId, ''Assigned user ID must be a valid MongoDB ObjectId'')]\<rparr>,
      \<lparr>ch_select = text_field ''sortBy'' tq_sortBy, ch_optional = True,
       ch_validators = [(isIn [''createdAt'', ''updatedAt'', ''dueDate'', ''priority'', ''title''],
                         ''Sort field must be createdAt, updatedAt, dueDate, priority, or title'')]\<rparr>,
      \<lparr>ch_select = text_field ''sortOrder'' tq_sortOrder, ch_optional = True,
       ch_validators = [(isIn [''asc'', ''desc''], ''Sort order must be asc or desc'')]\<rparr>]"

text \<open>The sanitizers of the body chains: \<^verbatim>\<open>.trim()\<close> on \<^verbatim>\<open>title\<close>, \<^verbatim>\<open>description\<close> and each
  tag, applied to the request after the chain's validators.\<close>

definition sanitize_body :: "task_body \<Rightarrow> task_body" where
  "sanitize_body b =
     b\<lparr>bd_title := map_option trim (bd_title b),
       bd_description := map_option trim (bd_description b),
       bd_tags := map_option (map trim) (bd_tags b)\<rparr>"

text \<open>\<^verbatim>\<open>handleValidationErrors\<close>: the 400 response, or \<open>None\<close> for \<^verbatim>\<open>next()\<close>.\<close>

definition error_json :: "validation_error \<Rightarrow> json" where
  "error_json error =
     JObj ([(''field'', JStr (ve_path error)), (''message'', JStr (ve_msg error))]
           @ opt_field ''value'' id (ve_value error))"

definition handleValidationErrors :: "validation_error list \<Rightarrow> response option" where
  "handleValidationErrors errors =
     (if errors \<noteq> []
      then Some \<lparr>res_status = 400,
                 res_body = JObj [(''success'', JBool False),
                                  (''message'', JStr ''Validation failed''),
                                  (''errors'', JArr (map error_json errors))]\<rparr>
      else None)"

section \<open>The modular server: \<^verbatim>\<open>routes/tasks.js\<close>\<close>

subsection \<open>Documents as JSON\<close>

definition jsval_field :: "string \<Rightarrow> jsval \<Rightarrow> (string \<times> json) list" where
  "jsval_field k v =
     (case v of Undefined \<Rightarrow> [] | Boolean b \<Rightarrow> [(k, JBool b)] | Number n \<Rightarrow> [(k, JNum n)])"

definition attachment_json :: "attachment \<Rightarrow> json" where
  "attachment_json a =
     JObj (opt_field ''filename'' JStr (at_filename a) @ opt_field ''url'' JStr (at_url a)
           @ [(''uploadDate'', JDate (at_uploadDate a))])"

text \<open>A populated \<^verbatim>\<open>assignedTo\<close>: the referenced user, loaded with the two paths
  \<^verbatim>\<open>name email\<close> and serialised by the user schema's \<^verbatim>\<open>toJSON\<close>; \<^verbatim>\<open>null\<close> when no user has the
  id.\<close>

definition populate_assignedTo :: "user list \<Rightarrow> oid \<Rightarrow> json" where
  "populate_assignedTo us i =
     (case find (\<lambda>u. usr_id u = i) us of
        None \<Rightarrow> JNull
      | Some u \<Rightarrow> user_toJSON (Including [''name'', ''email'']) u)"

text \<open>A task as \<^verbatim>\<open>res.json\<close> serialises it (\<^verbatim>\<open>toJSON: { virtuals: true }\<close>); \<open>ref\<close> is the
  form of the \<^verbatim>\<open>assignedTo\<close> reference, the id itself or the populated user.\<close>

definition task_json :: "env \<Rightarrow> (oid \<Rightarrow> json) \<Rightarrow> task \<Rightarrow> json" where
  "task_json e ref t =
     JObj ([(''_id'', JOid (tk_id t)), (''title'', JStr (tk_title t))]
           @ opt_field ''description'' JStr (tk_description t)
           @ [(''status'', JStr (tk_status t)), (''priority'', JStr (tk_priority t)),
              (''category'', JStr (tk_category t))]
           @ opt_field ''dueDate'' JDate (tk_dueDate t)
           @ opt_field ''assignedTo'' ref (tk_assignedTo t)
           @ [(''tags'', JArr (map JStr (tk_tags t))),
              (''attachments'', JArr (map attachment_json (tk_attachments t)))]
           @ opt_field ''completedAt'' JDate (tk_completedAt t)
           @ opt_field ''estimatedHours'' JNum (tk_estimatedHours t)
           @ opt_field ''actualHours'' JNum (tk_actualHours t)
           @ [(''createdAt'', JDate (tk_createdAt t)), (''updatedAt'', JDate (tk_updatedAt t)),
              (''__v'', JNum 0)]
           @ jsval_field ''ageInDays'' (ageInDays e t)
           @ jsval_field ''isOverdue'' (isOverdue e t)
           @ [(''id'', JOid (tk_id t))])"

text \<open>The paths of the task schema, and \<^verbatim>\<open>.populate(path, 'name email')\<close> for each of the
  paths a handler names, on the documents a query returned or on a saved document. The ODM
  refuses to populate a path that the schema does not declare; with no document there is
  nothing to populate.\<close>

definition task_schema_paths :: "string list" where
  "task_schema_paths =
     [''title'', ''description'', ''status'', ''priority'', ''category'', ''dueDate'',
      ''assignedTo'', ''tags'', ''attachments'', ''completedAt'', ''estimatedHours'',
      ''actualHours'']"

definition populate :: "env \<Rightarrow> user list \<Rightarrow> string list \<Rightarrow> task list \<Rightarrow> odm_error + json list" where
  "populate e us paths docs =
     (if docs = [] then Inr []
      else if list_all (\<lambda>p. p \<in> set task_schema_paths) paths
      then Inr (map (task_json e (if ''assignedTo'' \<in> set paths then populate_assignedTo us
                                  else JOid)) docs)
      else Inl StrictPopulateError)"

subsection \<open>Store calls\<close>

text \<open>The paths a write sets, as the handlers pass them; \<open>None\<close> is \<^verbatim>\<open>undefined\<close>, which
  neither the constructor nor an update applies.\<close>

record task_paths =
  tp_title :: "string option"
  tp_description :: "string option"
  tp_status :: "string option"
  tp_priority :: "string option"
  tp_category :: "string option"
  tp_assignedTo :: "raw_id option"
  tp_dueDate :: "string option"
  tp_tags :: "string list option"
  tp_updatedAt :: "int option"
  tp_completedAt :: "int option"

text \<open>Casting the paths to the schema's types: an id string that is no ObjectId and a date
  string that is an Invalid Date fail.\<close>

definition cast_errors :: "env \<Rightarrow> task_paths \<Rightarrow> (string \<times> string) list" where
  "cast_errors e p =
     (case tp_assignedTo p of Some (NotAnId s) \<Rightarrow> [(''assignedTo'', ''cast'')] | _ \<Rightarrow> [])
     @ (case tp_dueDate p of
          None \<Rightarrow> []
        | Some s \<Rightarrow> (case parseDate e s of None \<Rightarrow> [(''dueDate'', ''cast'')] | Some d \<Rightarrow> []))"

definition cast_assignedTo :: "raw_id option \<Rightarrow> oid option" where
  "cast_assignedTo v = (case v of Some (Id i) \<Rightarrow> Some i | _ \<Rightarrow> None)"

definition cast_dueDate :: "env \<Rightarrow> string option \<Rightarrow> int option" where
  "cast_dueDate e v = (case v of None \<Rightarrow> None | Some s \<Rightarrow> parseDate e s)"

text \<open>The schema validators on the paths that are set (after the \<^verbatim>\<open>trim\<close> setters).\<close>

definition path_errors :: "env \<Rightarrow> task_paths \<Rightarrow> (string \<times> string) list" where
  "path_errors e p =
     srv_opt_errors title_errors (map_option trim (tp_title p))
     @ srv_opt_errors (check_maxlength ''description'' 500) (map_option trim (tp_description p))
     @ srv_opt_errors (check_enum ''status'' status_values) (tp_status p)
     @ srv_opt_errors (check_enum ''priority'' priority_values) (tp_priority p)
     @ srv_opt_errors (check_enum ''category'' category_values) (tp_category p)
     @ dueDate_errors e (cast_dueDate e (tp_dueDate p))
     @ (case tp_tags p of None \<Rightarrow> [] | Some ts \<Rightarrow> tags_errors (map trim ts))"

text \<open>\<^verbatim>\<open>new Task({...})\<close>: the paths given, the schema defaults for the others.\<close>

definition new_Task :: "env \<Rightarrow> task_paths \<Rightarrow> task" where
  "new_Task e p =
     \<lparr>tk_id = newId e,
      tk_title = trim (str_of (tp_title p)),
      tk_description = map_option trim (tp_description p),
      tk_status = (case tp_status p of None \<Rightarrow> ''pending'' | Some v \<Rightarrow> v),
      tk_priority = (case tp_priority p of None \<Rightarrow> ''medium'' | Some v \<Rightarrow> v),
      tk_category = (case tp_category p of None \<Rightarrow> ''other'' | Some v \<Rightarrow> v),
      tk_dueDate = cast_dueDate e (tp_dueDate p),
      tk_assignedTo = cast_assignedTo (tp_assignedTo p),
      tk_tags = (case tp_tags p of None \<Rightarrow> [] | Some ts \<Rightarrow> map trim ts),
      tk_attachments = [],
      tk_completedAt = tp_completedAt p,
      tk_estimatedHours = None,
      tk_actualHours = None,
      tk_createdAt = now e,
      tk_updatedAt = now e\<rparr>"

text \<open>\<^verbatim>\<open>save\<close> of a new document: casts and validators (the title is required), the pre-save
  middleware (\<^verbatim>\<open>status\<close> counts as modified when the constructor was given it), the insert
  under the unique index on \<^verbatim>\<open>_id\<close>.\<close>

definition save_new :: "env \<Rightarrow> task_paths \<Rightarrow> store \<Rightarrow> odm_error + (task \<times> store)" where
  "save_new e p st =
     (let errs = cast_errors e p
                 @ (if tp_title p = None then [(''title'', ''required'')] else [])
                 @ path_errors e p
      in if errs \<noteq> [] then Inl (ValidationError errs)
         else let t = pre_save e (tp_status p \<noteq> None) (new_Task e p)
              in if tk_id t \<in> set (map tk_id (st_tasks st)) then Inl (DuplicateKey ''_id'')
                 else Inr (t, st\<lparr>st_tasks := st_tasks st @ [t]\<rparr>))"

text \<open>The update of \<^verbatim>\<open>findByIdAndUpdate\<close>: each path that is set replaces the stored one. No
  \<^verbatim>\<open>save\<close> middleware runs on this call.\<close>

definition apply_paths :: "env \<Rightarrow> task_paths \<Rightarrow> task \<Rightarrow> task" where
  "apply_paths e p t =
     t\<lparr>tk_title := (case tp_title p of None \<Rightarrow> tk_title t | Some v \<Rightarrow> trim v),
       tk_description := (case tp_description p of None \<Rightarrow> tk_description t
                          | Some v \<Rightarrow> Some (trim v)),
       tk_status := (case tp_status p of None \<Rightarrow> tk_status t | Some v \<Rightarrow> v),
       tk_priority := (case tp_priority p of None \<Rightarrow> tk_priority t | Some v \<Rightarrow> v),
       tk_category := (case tp_category p of None \<Rightarrow> tk_category t | Some v \<Rightarrow> v),
       tk_assignedTo := (case tp_assignedTo p of None \<Rightarrow> tk_assignedTo t
                         | Some v \<Rightarrow> cast_assignedTo (Some v)),
       tk_dueDate := (case tp_dueDate p of None \<Rightarrow> tk_dueDate t
                      | Some v \<Rightarrow> cast_dueDate e (Some v)),
       tk_tags := (case tp_tags p of None \<Rightarrow> tk_tags t | Some ts \<Rightarrow> map trim ts),
       tk_completedAt := (case tp_completedAt p of None \<Rightarrow> tk_completedAt t
                          | Some d \<Rightarrow> Some d),
       tk_updatedAt := (case tp_updatedAt p of None \<Rightarrow> now e | Some d \<Rightarrow> d)\<rparr>"

text \<open>\<^verbatim>\<open>findByIdAndUpdate(id, paths, { new: true, runValidators: true })\<close>: the updated
  document, or \<open>None\<close> when no task has the id.\<close>

definition findByIdAndUpdate ::
  "env \<Rightarrow> raw_id \<Rightarrow> task_paths \<Rightarrow> store \<Rightarrow> odm_error + (task option \<times> store)" where
  "findByIdAndUpdate e r p st =
     (case r of
        NotAnId s \<Rightarrow> Inl CastError
      | Id i \<Rightarrow>
          let errs = cast_errors e p @ path_errors e p
          in if errs \<noteq> [] then Inl (ValidationError errs)
             else let ts = update_first (\<lambda>t. tk_id t = i) (apply_paths e p) (st_tasks st)
                  in Inr (find (\<lambda>t. tk_id t = i) ts, st\<lparr>st_tasks := ts\<rparr>))"

subsection \<open>The routes\<close>

text \<open>\<^verbatim>\<open>routes/tasks.js\<close> passes \<^verbatim>\<open>taskValidationRules.params\<close> to \<^verbatim>\<open>GET /:id\<close> and
  \<^verbatim>\<open>DELETE /:id\<close> and \<^verbatim>\<open>taskValidationRules.status\<close> to \<^verbatim>\<open>PATCH /:id/status\<close>;
  \<^verbatim>\<open>validation.js\<close> defines the rule sets \<^verbatim>\<open>create\<close>, \<^verbatim>\<open>update\<close>, \<^verbatim>\<open>getById\<close> and \<^verbatim>\<open>query\<close> only,
  so both are \<^verbatim>\<open>undefined\<close>. The router refuses a route one of whose handlers is no function
  (it throws while \<^verbatim>\<open>routes/tasks.js\<close> is loaded), so no request reaches these three routes.
  The model takes the routes whose rule sets exist, \<^verbatim>\<open>GET /\<close>, \<^verbatim>\<open>POST /\<close> and \<^verbatim>\<open>PUT /:id\<close>, as
  served, and has the handler functions of \<^verbatim>\<open>GET /:id\<close> and \<^verbatim>\<open>PATCH /:id/status\<close> as they are
  written, with no route to them.\<close>

subsection \<open>\<^verbatim>\<open>GET /api/tasks\<close>\<close>

text \<open>The \<^verbatim>\<open>query\<close> object the handler builds: a key is absent (\<open>None\<close>) until an assignment
  sets it, and a later assignment to the same key replaces the earlier one.\<close>

datatype status_cond = StatusIs string | StatusNot string

record task_filter =
  fl_status :: "status_cond option"
  fl_priority :: "string option"
  fl_category :: "string option"
  fl_assignedTo :: "raw_id option"
  fl_or :: "string option"
  fl_dueDate_lt :: "int option"

definition empty_filter :: task_filter where
  "empty_filter = \<lparr>fl_status = None, fl_priority = None, fl_category = None,
                    fl_assignedTo = None, fl_or = None, fl_dueDate_lt = None\<rparr>"

definition build_query :: "env \<Rightarrow> task_query \<Rightarrow> task_filter" where
  "build_query e q =
     (let query = empty_filter;
          query = (if truthy (tq_status q)
                   then query\<lparr>fl_status := Some (StatusIs (str_of (tq_status q)))\<rparr> else query);
          query = (if truthy (tq_priority q)
                   then query\<lparr>fl_priority := tq_priority q\<rparr> else query);
          query = (if truthy (tq_category q)
                   then query\<lparr>fl_category := tq_category q\<rparr> else query);
          query = (if truthy_id (tq_assignedTo q)
                   then query\<lparr>fl_assignedTo := tq_assignedTo q\<rparr> else query);
          query = (if truthy (tq_search q)
                   then query\<lparr>fl_or := tq_search q\<rparr> else query);
          query = (if tq_overdue q = Some ''true''
                   then query\<lparr>fl_dueDate_lt := Some (now e),
                              fl_status := Some (StatusNot ''completed'')\<rparr>
                   else query)
      in query)"

text \<open>The case-insensitive \<^verbatim>\<open>$regex\<close> match of a pattern the store accepts.\<close>

definition regex_match :: "lib \<Rightarrow> string \<Rightarrow> string \<Rightarrow> bool" where
  "regex_match L pat s = (case regexTest L pat of None \<Rightarrow> False | Some m \<Rightarrow> m s)"

text \<open>The store's reading of the query: equality on a path, \<^verbatim>\<open>$ne\<close>, \<^verbatim>\<open>$lt\<close> (a task
  without due date does not match), and the \<^verbatim>\<open>$or\<close> of the two regex matches on \<^verbatim>\<open>title\<close> and
  \<^verbatim>\<open>description\<close>.\<close>

definition matches :: "lib \<Rightarrow> task_filter \<Rightarrow> task \<Rightarrow> bool" where
  "matches L f t =
     ((case fl_status f of
         None \<Rightarrow> True
       | Some (StatusIs s) \<Rightarrow> tk_status t = s
       | Some (StatusNot s) \<Rightarrow> tk_status t \<noteq> s) \<and>
      (case fl_priority f of None \<Rightarrow> True | Some v \<Rightarrow> tk_priority t = v) \<and>
      (case fl_category f of None \<Rightarrow> True | Some v \<Rightarrow> tk_category t = v) \<and>
      (case fl_assignedTo f of
         None \<Rightarrow> True
       | Some (Id i) \<Rightarrow> tk_assignedTo t = Some i
       | Some (NotAnId s) \<Rightarrow> False) \<and>
      (case fl_or f of
         None \<Rightarrow> True
       | Some pat \<Rightarrow> regex_match L pat (tk_title t) \<or>
                     (case tk_description t of None \<Rightarrow> False | Some d \<Rightarrow> regex_match L pat d)) \<and>
      (case fl_dueDate_lt f of
         None \<Rightarrow> True
       | Some d \<Rightarrow> (case tk_dueDate t of None \<Rightarrow> False | Some x \<Rightarrow> x < d)))"

text \<open>\<^verbatim>\<open>Task.find(query)\<close>: the store fails the cast of an \<^verbatim>\<open>assignedTo\<close> that is no ObjectId
  and refuses a search text that is no pattern; no rule of the route checks \<^verbatim>\<open>search\<close>.\<close>

definition castable :: "task_filter \<Rightarrow> bool" where
  "castable f = (case fl_assignedTo f of Some (NotAnId s) \<Rightarrow> False | _ \<Rightarrow> True)"

definition pattern_ok :: "lib \<Rightarrow> task_filter \<Rightarrow> bool" where
  "pattern_ok L f = (case fl_or f of None \<Rightarrow> True | Some pat \<Rightarrow> regexTest L pat \<noteq> None)"

definition find_tasks :: "lib \<Rightarrow> task_filter \<Rightarrow> task list \<Rightarrow> odm_error + task list" where
  "find_tasks L f ts =
     (if \<not> castable f then Inl CastError
      else if \<not> pattern_ok L f then Inl OtherError
      else Inr (filter (matches L f) ts))"

definition sort_by :: "('a \<Rightarrow> nat) \<Rightarrow> bool \<Rightarrow> ('a \<Rightarrow> 'k::linorder) \<Rightarrow> 'a list \<Rightarrow> 'a list" where
  "sort_by rank asc key xs = (if asc then sort_asc rank key xs else sort_desc rank key xs)"

text \<open>\<^verbatim>\<open>sortObj[sortBy] = sortOrder === 'asc' ? 1 : -1\<close>, for the sort fields the query rules
  let through. An absent due date sorts before every date, and strings sort by their
  bytes.\<close>

definition sort_tasks :: "env \<Rightarrow> string \<Rightarrow> bool \<Rightarrow> task list \<Rightarrow> task list" where
  "sort_tasks e sortBy asc ts =
     (let rank = (\<lambda>t. tieRank e (tk_id t))
      in if sortBy = ''createdAt'' then sort_by rank asc tk_createdAt ts
         else if sortBy = ''updatedAt'' then sort_by rank asc tk_updatedAt ts
         else if sortBy = ''dueDate'' then sort_by rank asc tk_dueDate ts
         else if sortBy = ''priority'' then sort_by rank asc tk_priority ts
         else if sortBy = ''title'' then sort_by rank asc tk_title ts
         else ts)"

text \<open>The pagination object, from \<^verbatim>\<open>parseInt(page)\<close>, \<^verbatim>\<open>parseInt(limit)\<close> and the count.\<close>

definition tasks_pagination :: "lib \<Rightarrow> jsnum \<Rightarrow> jsnum \<Rightarrow> nat \<Rightarrow> json" where
  "tasks_pagination L page limit n =
     (let totalPages = js_ceil_div L (SafeInt (int n)) limit
      in JObj [(''currentPage'', json_of_num page),
               (''totalPages'', json_of_num totalPages),
               (''totalTasks'', JNum (int n)),
               (''hasNextPage'', JBool (js_less L page totalPages)),
               (''hasPrevPage'', JBool (js_less L (SafeInt 1) page))])"

definition get_tasks_handler :: "env \<Rightarrow> lib \<Rightarrow> task_query \<Rightarrow> store \<Rightarrow> response" where
  "get_tasks_handler e L q st =
     (let query = build_query e q;
          sortBy = (case tq_sortBy q of None \<Rightarrow> ''createdAt'' | Some s \<Rightarrow> s);
          asc = (tq_sortOrder q = Some ''asc'');
          page = num_param (parseInt L) 1 (tq_page q);
          limit = num_param (parseInt L) 10 (tq_limit q);
          skip = js_mul L (js_sub L page (SafeInt 1)) limit
      in case find_tasks L query (st_tasks st) of
           Inl err \<Rightarrow> fail_json 500 ''Server error while fetching tasks''
         | Inr found \<Rightarrow>
             (case store_cursor L skip limit (sort_tasks e sortBy asc found) of
                None \<Rightarrow> fail_json 500 ''Server error while fetching tasks''
              | Some docs \<Rightarrow>
                  (case populate e (st_users st) [''assignedTo'', ''createdBy''] docs of
                     Inl err \<Rightarrow> fail_json 500 ''Server error while fetching tasks''
                   | Inr data \<Rightarrow>
                       \<lparr>res_status = 200,
                        res_body =
                          JObj [(''success'', JBool True),
                                (''data'', JArr data),
                                (''pagination'',
                                 tasks_pagination L page limit (length found))]\<rparr>)))"

definition get_tasks :: "env \<Rightarrow> lib \<Rightarrow> task_query \<Rightarrow> store \<Rightarrow> response" where
  "get_tasks e L q st =
     (case handleValidationErrors (validationResult taskValidationRules_query q) of
        Some res \<Rightarrow> res
      | None \<Rightarrow> get_tasks_handler e L q st)"

subsection \<open>The handler of \<^verbatim>\<open>GET /api/tasks/:id\<close>\<close>

text \<open>The populated document of a query for one document: \<^verbatim>\<open>null\<close> when there is none.\<close>

definition populate_one ::
  "env \<Rightarrow> user list \<Rightarrow> string list \<Rightarrow> task option \<Rightarrow> odm_error + json option" where
  "populate_one e us paths doc =
     (case doc of
        None \<Rightarrow> Inr None
      | Some t \<Rightarrow> (case populate e us paths [t] of
                     Inl err \<Rightarrow> Inl err
                   | Inr js \<Rightarrow> Inr (Some (hd js))))"

definition get_task_handler :: "env \<Rightarrow> raw_id \<Rightarrow> store \<Rightarrow> response" where
  "get_task_handler e r st =
     (case findById tk_id r (st_tasks st) of
        Inl err \<Rightarrow> fail_json 500 ''Server error while fetching task''
      | Inr found \<Rightarrow>
          (case populate_one e (st_users st) [''assignedTo'', ''createdBy''] found of
             Inl err \<Rightarrow> fail_json 500 ''Server error while fetching task''
           | Inr None \<Rightarrow> fail_json 404 ''Task not found''
           | Inr (Some task) \<Rightarrow>
               \<lparr>res_status = 200,
                res_body = JObj [(''success'', JBool True), (''data'', task)]\<rparr>))"

subsection \<open>\<^verbatim>\<open>POST /api/tasks\<close>\<close>

text \<open>\<^verbatim>\<open>// Verify assigned user exists if provided\<close>: the block that the create and the
  update handler share; \<open>None\<close> lets the handler go on.\<close>

definition verify_assigned :: "string \<Rightarrow> raw_id option \<Rightarrow> user list \<Rightarrow> response option" where
  "verify_assigned catch_message v us =
     (case v of
        None \<Rightarrow> None
      | Some r \<Rightarrow>
          if \<not> truthy_id (Some r) then None
          else (case findById usr_id r us of
                  Inl err \<Rightarrow> Some (fail_json 500 catch_message)
                | Inr None \<Rightarrow> Some (fail_json 400 ''Assigned user not found'')
                | Inr (Some user) \<Rightarrow> None))"

text \<open>The task is saved before the two \<^verbatim>\<open>populate\<close> calls on it; what they raise is caught
  by the handler, which answers 500.\<close>

definition post_task_handler :: "env \<Rightarrow> task_body \<Rightarrow> store \<Rightarrow> response \<times> store" where
  "post_task_handler e b st =
     (let status = (case bd_status b of None \<Rightarrow> ''pending'' | Some v \<Rightarrow> v);
          priority = (case bd_priority b of None \<Rightarrow> ''medium'' | Some v \<Rightarrow> v)
      in case verify_assigned ''Server error while creating task'' (bd_assignedTo b)
                (st_users st) of
           Some res \<Rightarrow> (res, st)
         | None \<Rightarrow>
             (case save_new e \<lparr>tp_title = bd_title b, tp_description = bd_description b,
                               tp_status = Some status, tp_priority = Some priority,
                               tp_category = bd_category b, tp_assignedTo = bd_assignedTo b,
                               tp_dueDate = bd_dueDate b, tp_tags = bd_tags b,
                               tp_updatedAt = None, tp_completedAt = None\<rparr> st of
                Inl err \<Rightarrow> (fail_json 500 ''Server error while creating task'', st)
              | Inr (savedTask, st') \<Rightarrow>
                  (case populate_one e (st_users st') [''assignedTo'', ''createdBy'']
                          (Some savedTask) of
                     Inl err \<Rightarrow> (fail_json 500 ''Server error while creating task'', st')
                   | Inr data \<Rightarrow>
                       (\<lparr>res_status = 201,
                         res_body = JObj [(''success'', JBool True),
                                          (''data'', case data of None \<Rightarrow> JNull | Some d \<Rightarrow> d),
                                          (''message'', JStr ''Task created successfully'')]\<rparr>,
                        st'))))"

definition post_task :: "env \<Rightarrow> lib \<Rightarrow> task_body \<Rightarrow> store \<Rightarrow> response \<times> store" where
  "post_task e L b st =
     (case handleValidationErrors (validationResult (taskValidationRules_create e L) b) of
        Some res \<Rightarrow> (res, st)
      | None \<Rightarrow> post_task_handler e (sanitize_body b) st)"

subsection \<open>\<^verbatim>\<open>PUT /api/tasks/:id\<close>\<close>

text \<open>The update object of the handler: the eight fields of the body and \<^verbatim>\<open>updatedAt\<close>.\<close>

definition put_paths :: "env \<Rightarrow> task_body \<Rightarrow> task_paths" where
  "put_paths e b =
     \<lparr>tp_title = bd_title b, tp_description = bd_description b,
      tp_status = bd_status b, tp_priority = bd_priority b,
      tp_category = bd_category b, tp_assignedTo = bd_assignedTo b,
      tp_dueDate = bd_dueDate b, tp_tags = bd_tags b,
      tp_updatedAt = Some (now e), tp_completedAt = None\<rparr>"

text \<open>The update is applied before the updated document is populated.\<close>

definition put_task_handler :: "env \<Rightarrow> raw_id \<Rightarrow> task_body \<Rightarrow> store \<Rightarrow> response \<times> store" where
  "put_task_handler e r b st =
     (case findById tk_id r (st_tasks st) of
        Inl err \<Rightarrow> (fail_json 500 ''Server error while updating task'', st)
      | Inr None \<Rightarrow> (fail_json 404 ''Task not found'', st)
      | Inr (Some task) \<Rightarrow>
          (case verify_assigned ''Server error while updating task'' (bd_assignedTo b)
                  (st_users st) of
             Some res \<Rightarrow> (res, st)
           | None \<Rightarrow>
               (case findByIdAndUpdate e r (put_paths e b) st of
                  Inl err \<Rightarrow> (fail_json 500 ''Server error while updating task'', st)
                | Inr (updatedTask, st') \<Rightarrow>
                    (case populate_one e (st_users st') [''assignedTo'', ''createdBy'']
                            updatedTask of
                       Inl err \<Rightarrow> (fail_json 500 ''Server error while updating task'', st')
                     | Inr data \<Rightarrow>
                         (\<lparr>res_status = 200,
                           res_body = JObj [(''success'', JBool True),
                                            (''data'', case data of None \<Rightarrow> JNull | Some d \<Rightarrow> d),
                                            (''message'', JStr ''Task updated successfully'')]\<rparr>,
                          st')))))"

definition put_task :: "env \<Rightarrow> lib \<Rightarrow> raw_id \<Rightarrow> task_body \<Rightarrow> store \<Rightarrow> response \<times> store" where
  "put_task e L r b st =
     (case handleValidationErrors (validationResult (taskValidationRules_update e L) (r, b)) of
        Some res \<Rightarrow> (res, st)
      | None \<Rightarrow> put_task_handler e r (sanitize_body b) st)"

subsection \<open>The handler of \<^verbatim>\<open>PATCH /api/tasks/:id/status\<close>\<close>

definition patch_status_handler ::
  "env \<Rightarrow> raw_id \<Rightarrow> string option \<Rightarrow> store \<Rightarrow> response \<times> store" where
  "patch_status_handler e r status st =
     (case findById tk_id r (st_tasks st) of
        Inl err \<Rightarrow> (fail_json 500 ''Server error while updating task status'', st)
      | Inr None \<Rightarrow> (fail_json 404 ''Task not found'', st)
      | Inr (Some task) \<Rightarrow>
          (case findByIdAndUpdate e r
                  \<lparr>tp_title = None, tp_description = None, tp_status = status,
                   tp_priority = None, tp_category = None, tp_assignedTo = None,
                   tp_dueDate = None, tp_tags = None, tp_updatedAt = Some (now e),
                   tp_completedAt = (if status = Some ''completed'' then Some (now e)
                                     else None)\<rparr> st of
             Inl err \<Rightarrow> (fail_json 500 ''Server error while updating task status'', st)
           | Inr (updatedTask, st') \<Rightarrow>
               (case populate_one e (st_users st') [''assignedTo'', ''createdBy'']
                       updatedTask of
                  Inl err \<Rightarrow> (fail_json 500 ''Server error while updating task status'', st')
                | Inr data \<Rightarrow>
                    (\<lparr>res_status = 200,
                      res_body = JObj [(''success'', JBool True),
                                       (''data'', case data of None \<Rightarrow> JNull | Some d \<Rightarrow> d),
                                       (''message'',
                                        JStr ''Task status updated successfully'')]\<rparr>,
                     st'))))"

section \<open>Reading responses\<close>




definition response_data :: "response \<Rightarrow> json" where
  "response_data r = (case jget ''data'' (res_body r) of Some d \<Rightarrow> d | None \<Rightarrow> JNull)"


definition response_message :: "response \<Rightarrow> string" where
  "response_message r = (case jget ''message'' (res_body r) of Some (JStr m) \<Rightarrow> m | _ \<Rightarrow> [])"

definition response_errors :: "response \<Rightarrow> json list" where
  "response_errors r = (case jget ''errors'' (res_body r) of Some (JArr es) \<Rightarrow> es | _ \<Rightarrow> [])"

text \<open>No object of a JSON value, at any depth, has the key \<^verbatim>\<open>password\<close>.\<close>

fun no_password :: "json \<Rightarrow> bool" where
  "no_password (JArr xs) = (\<forall>x \<in> set xs. no_password x)"
| "no_password (JObj kvs) = (\<forall>kv \<in> set kvs. fst kv \<noteq> ''password'' \<and> no_password (snd kv))"
| "no_password _ = True"

section \<open>The overdue filter in the words of the specification\<close>



section \<open>The completion invariant\<close>

text \<open>\<^verbatim>\<open>completedAt\<close> is present if and only if \<^verbatim>\<open>status\<close> is \<^verbatim>\<open>completed\<close>.\<close>

definition completion_ok :: "task \<Rightarrow> bool" where
  "completion_ok t = (tk_completedAt t \<noteq> None \<longleftrightarrow> tk_status t = ''completed'')"

definition completion_view :: "store \<Rightarrow> (oid \<times> string \<times> int option) list" where
  "completion_view st = map (\<lambda>t. (tk_id t, tk_status t, tk_completedAt t)) (st_tasks st)"

section \<open>Pages\<close>


text \<open>A numeric query parameter that is absent, with the handler's default, or a plain
  decimal integer numeral; \<open>n\<close> is the integer it stands for.\<close>

definition plain_param :: "int \<Rightarrow> string option \<Rightarrow> int \<Rightarrow> bool" where
  "plain_param d v n =
     (case v of None \<Rightarrow> n = d | Some s \<Rightarrow> int_syntax s \<and> int_value s = n)"


definition query_sort :: "env \<Rightarrow> task_query \<Rightarrow> task list \<Rightarrow> task list" where
  "query_sort e q ts =
     sort_tasks e (case tq_sortBy q of None \<Rightarrow> ''createdAt'' | Some s \<Rightarrow> s)
       (tq_sortOrder q = Some ''asc'') ts"

section \<open>The task stored for a create request with a title and priority high only\<close>

definition created_task :: "env \<Rightarrow> string \<Rightarrow> task" where
  "created_task e title =
     \<lparr>tk_id = newId e, tk_title = trim title, tk_description = None, tk_status = ''pending'',
      tk_priority = ''high'', tk_category = ''other'', tk_dueDate = None, tk_assignedTo = None,
      tk_tags = [], tk_attachments = [], tk_completedAt = None, tk_estimatedHours = None,
      tk_actualHours = None, tk_createdAt = now e, tk_updatedAt = now e\<rparr>"

section \<open>Example stores and requests\<close>

definition st0 :: srv_store where
  "st0 = \<lparr>users = [\<lparr>u_id = 1, u_username = ''ann'', u_email = ''ann@x.org'', u_password = ''secret1'',
                     u_createdAt = 10, u_isActive = True\<rparr>],
          tasks = [\<lparr>t_id = 7, t_title = ''Write spec'', t_description = None, t_priority = ''high'',
                     t_status = ''pending'', t_dueDate = None, t_userId = 1, t_createdAt = 11,
                     t_updatedAt = 11\<rparr>],
          categories = [], projects = []\<rparr>"

definition e0 :: env where
  "e0 = \<lparr>now = 1000, newId = 100,
          parseDate = (\<lambda>s. if s = ''2030-01-01'' then Some 2000
                           else if s = ''2020-01-01'' then Some 500 else None),
          tieRank = (\<lambda>i. i)\<rparr>"

definition L0 :: lib where
  "L0 = \<lparr>isISO8601 = (\<lambda>s. s = ''2030-01-01'' \<or> s = ''2020-01-01''),
          isFloat = (\<lambda>lo hi s. s = ''1.5''),
          regexTest = (\<lambda>pat. if pat = ''('' then None else Some (\<lambda>s. pat = s)),
          toNumber = (\<lambda>s. NaN),
          float_of_int = (\<lambda>n. if 0 < n then pos_inf else neg_inf),
          float_sub = (\<lambda>a b. NaN), float_mul = (\<lambda>a b. NaN), float_ceil_div = (\<lambda>a b. NaN),
          float_less = (\<lambda>a b. False), float_cursor = (\<lambda>a b. None)\<rparr>"

definition ann :: user where
  "ann = \<lparr>usr_id = 1, usr_name = ''Ann Lee'', usr_email = ''ann@x.org'', usr_password = ''$2a$12$hash'',
           usr_role = ''user'', usr_avatar = ''https://ui-avatars.com/api/?name=AL&background=random'',
           usr_department = None, usr_position = None, usr_phone = None, usr_isActive = True,
           usr_lastLogin = None,
           usr_preferences = \<lparr>pf_theme = ''light'',
                               pf_notifications = \<lparr>nt_email = True, nt_push = True,
                                                    nt_taskAssigned = True, nt_taskDue = True\<rparr>,
                               pf_timezone = ''UTC''\<rparr>,
           usr_createdAt = 10, usr_updatedAt = 10\<rparr>"

definition task_a :: task where
  "task_a = \<lparr>tk_id = 7, tk_title = ''A'', tk_description = None, tk_status = ''pending'',
              tk_priority = ''medium'', tk_category = ''other'', tk_dueDate = Some 900,
              tk_assignedTo = None, tk_tags = [], tk_attachments = [], tk_completedAt = None,
              tk_estimatedHours = None, tk_actualHours = None, tk_createdAt = 100,
              tk_updatedAt = 100\<rparr>"

definition task_b :: task where
  "task_b = task_a\<lparr>tk_id := 8, tk_title := ''B'', tk_status := ''completed'',
                    tk_completedAt := Some 950, tk_createdAt := 200, tk_updatedAt := 950\<rparr>"

definition task_c :: task where
  "task_c = task_a\<lparr>tk_id := 9, tk_title := ''C'', tk_dueDate := Some 2000, tk_createdAt := 300,
                    tk_updatedAt := 300\<rparr>"

definition task_d :: task where
  "task_d = task_a\<lparr>tk_id := 10, tk_title := ''D'', tk_status := ''in-progress'',
                    tk_dueDate := Some 800, tk_createdAt := 400, tk_updatedAt := 400\<rparr>"

definition st1 :: store where
  "st1 = \<lparr>st_users = [ann], st_tasks = [task_a, task_b, task_c, task_d]\<rparr>"

definition no_body :: task_body where
  "no_body = \<lparr>bd_title = None, bd_description = None, bd_status = None, bd_priority = None,
               bd_category = None, bd_dueDate = None, bd_assignedTo = None, bd_tags = None,
               bd_estimatedHours = None, bd_actualHours = None\<rparr>"

definition no_query :: task_query where
  "no_query = \<lparr>tq_page = None, tq_limit = None, tq_status = None, tq_priority = None,
                tq_category = None, tq_assignedTo = None, tq_search = None, tq_sortBy = None,
                tq_sortOrder = None, tq_overdue = None\<rparr>"

definition srv_no_query :: srv_query where
  "srv_no_query = \<lparr>q_page = None, q_limit = None, q_status = None, q_priority = None,
                    q_userId = None\<rparr>"

definition bob_body :: srv_user_body where
  "bob_body = \<lparr>b_username = Some ''bob'', b_email = Some ''ann@x.org'', b_password = Some ''secret2''\<rparr>"

definition dangling_body :: task_body where
  "dangling_body = no_body\<lparr>bd_title := Some ''T'', bd_assignedTo := Some (Id 5)\<rparr>"

definition srv_dangling_body :: srv_task_body where
  "srv_dangling_body = \<lparr>tb_title = Some ''T'', tb_description = None, tb_priority = None,
     tb_status = None, tb_dueDate = None, tb_userId = Some (Id 5)\<rparr>"

definition srv_malformed_body :: srv_task_body where
  "srv_malformed_body = srv_dangling_body\<lparr>tb_userId := Some (NotAnId ''abc'')\<rparr>"

definition completed_body :: task_body where
  "completed_body = no_body\<lparr>bd_status := Some ''completed''\<rparr>"

definition pending_body :: task_body where
  "pending_body = no_body\<lparr>bd_status := Some ''pending''\<rparr>"




definition bad_body :: task_body where
  "bad_body = no_body\<lparr>bd_title := Some '''', bd_priority := Some ''highest'',
                      bd_assignedTo := Some (NotAnId ''x'')\<rparr>"

definition spec_body :: task_body where
  "spec_body = no_body\<lparr>bd_title := Some ''Write spec'', bd_priority := Some ''high''\<rparr>"

definition e1 :: env where
  "e1 = e0\<lparr>now := 5000, newId := 101\<rparr>"

definition carol_body :: srv_user_body where
  "carol_body = \<lparr>b_username = Some ''carol'', b_email = Some ''carol@x.org'',
                  b_password = Some ''secret3''\<rparr>"

section \<open>Properties of the single-file server\<close>

subsection \<open>Store lemmas\<close>

lemma srv_findById_None: "srv_findById f i xs = None \<longleftrightarrow> i \<notin> set (map f xs)"
  by (auto simp: srv_findById_def find_None_iff)

lemma srv_findById_Some: "srv_findById f i xs = Some x \<Longrightarrow> x \<in> set xs \<and> f x = i"
  by (auto simp: srv_findById_def find_Some_iff)

lemma delete_first_keys:
  "distinct (map f xs) \<Longrightarrow> set (map f (delete_first (\<lambda>x. f x = i) xs)) = set (map f xs) - {i}"
proof (induction xs)
  case Nil
  then show ?case by simp
next
  case (Cons x xs)
  show ?case
  proof (cases "f x = i")
    case True
    then have "i \<notin> f ` set xs" using Cons.prems by auto
    with True show ?thesis by auto
  next
    case False
    with Cons show ?thesis by auto
  qed
qed

lemma delete_first_subset: "set (delete_first P xs) \<subseteq> set xs"
  by (induction xs) auto

lemma delete_first_distinct: "distinct (map f xs) \<Longrightarrow> distinct (map f (delete_first P xs))"
proof (induction xs)
  case Nil then show ?case by simp
next
  case (Cons x xs)
  have "f x \<notin> f ` set (delete_first P xs)" using Cons.prems delete_first_subset[of P xs] by auto
  then show ?case using Cons by auto
qed

lemma delete_first_other:
  "filter (\<lambda>x. f x \<noteq> i) (delete_first (\<lambda>x. f x = i) xs) = filter (\<lambda>x. f x \<noteq> i) xs"
  by (induction xs) auto

lemma delete_first_length:
  "i \<in> set (map f xs) \<Longrightarrow> Suc (length (delete_first (\<lambda>x. f x = i) xs)) = length xs"
  by (induction xs) auto

lemma cursor_page_Nil: "0 \<le> s \<Longrightarrow> cursor_page s l [] = Some []"
  by (simp add: cursor_page_def Let_def)


lemma store_cursor_Nil: "store_cursor L s l ([] :: 'a list) \<noteq> None \<Longrightarrow> store_cursor L s l ([] :: 'a list) = Some []"
  by (auto simp: store_cursor_def cursor_page_def Let_def
      split: jsnum.splits option.splits prod.splits if_splits)

lemma sort_desc_Nil: "sort_desc r k [] = []"
  by (simp add: sort_desc_def)

lemma srv_error_handler_500:
  "res_status (srv_error_handler CastError) = 500"
  "response_message (srv_error_handler CastError) = ''Internal Server Error''"
  by (simp_all add: srv_error_handler_def response_message_def jget_def)

subsection \<open>Deleting a user\<close>

text \<open>The path parameter \<^verbatim>\<open>abc\<close> is the id of no user, and the answer is not 404.\<close>

theorem srv_delete_users_malformed_counterexample:
  "res_status (fst (srv_delete_users (NotAnId ''abc'') st0)) \<noteq> 404"
  by (simp add: srv_delete_users_def srv_error_handler_def)

text \<open>
  Claim C10, corrected. \<^verbatim>\<open>DELETE /api/users/:id\<close> for an id that no user of the store has: if
  the id is an ObjectId the answer is 404 with the message \<^verbatim>\<open>User not found\<close>; if it is no
  ObjectId the answer is the global error handler's 500. In both cases the store after the
  request is the store before it: no user, task, category or project is deleted, since the
  handler stops before the two \<^verbatim>\<open>deleteMany\<close> calls.
\<close>

theorem srv_delete_users_not_found:
  assumes "i \<notin> set (map u_id (users st))"
  shows "res_status (fst (srv_delete_users (Id i) st)) = 404
       \<and> response_message (fst (srv_delete_users (Id i) st)) = ''User not found''
       \<and> snd (srv_delete_users (Id i) st) = st
       \<and> res_status (fst (srv_delete_users (NotAnId s) st)) = 500
       \<and> snd (srv_delete_users (NotAnId s) st) = st"
proof -
  have "srv_findById u_id i (users st) = None"
    using assms by (simp add: srv_findById_None)
  then show ?thesis
    by (simp add: srv_delete_users_def fail_json_def srv_error_handler_def response_message_def
        jget_def)
qed

theorem srv_delete_users_not_found_witness:
  "(2::nat) \<notin> set (map u_id (users st0))
     \<and> res_status (fst (srv_delete_users (Id 2) st0)) = 404
     \<and> snd (srv_delete_users (Id 2) st0) = st0
     \<and> res_status (fst (srv_delete_users (NotAnId ''abc'') st0)) = 500
     \<and> snd (srv_delete_users (NotAnId ''abc'') st0) = st0"
  using srv_delete_users_not_found [of 2 st0 "''abc''"] by (simp add: st0_def)

text \<open>
  Claim C5. Deleting a user \<open>u\<close> with id \<open>i\<close> answers 200 and removes \<open>u\<close>, every task and
  every project whose \<^verbatim>\<open>userId\<close> is \<open>i\<close>: the collections shrink by one user, by the \<open>N\<close> tasks
  and by the \<open>M\<close> projects the user owned, the tasks and projects of other users are kept as
  they were (in order), the categories are untouched, and a later \<^verbatim>\<open>GET /api/tasks\<close> with
  \<^verbatim>\<open>userId\<close> \<open>i\<close> (on any page the store accepts) returns no task and total 0.
\<close>

theorem srv_delete_users_cascade:
  assumes "srv_findById u_id i (users st) = Some u" and "distinct (map u_id (users st))"
  shows "res_status (fst (srv_delete_users (Id i) st)) = 200
       \<and> srv_findById u_id i (users (snd (srv_delete_users (Id i) st))) = None
       \<and> set (map u_id (users (snd (srv_delete_users (Id i) st)))) = set (map u_id (users st)) - {i}
       \<and> tasks (snd (srv_delete_users (Id i) st)) = filter (\<lambda>t. t_userId t \<noteq> i) (tasks st)
       \<and> projects (snd (srv_delete_users (Id i) st)) = filter (\<lambda>p. p_userId p \<noteq> i) (projects st)
       \<and> length (tasks (snd (srv_delete_users (Id i) st)))
           + length (filter (\<lambda>t. t_userId t = i) (tasks st)) = length (tasks st)
       \<and> length (projects (snd (srv_delete_users (Id i) st)))
           + length (filter (\<lambda>p. p_userId p = i) (projects st)) = length (projects st)
       \<and> Suc (length (users (snd (srv_delete_users (Id i) st)))) = length (users st)
       \<and> categories (snd (srv_delete_users (Id i) st)) = categories st
       \<and> (\<forall>e L q. q_userId q = Some (Id i)
                  \<and> store_cursor L (srv_skip L q) (srv_limit L q) ([] :: srv_task list) \<noteq> None \<longrightarrow>
              srv_get_tasks e L q (snd (srv_delete_users (Id i) st))
                = srv_list_json [] (srv_pagination L q 0))"
proof -
  let ?st' = "snd (srv_delete_users (Id i) st)"
  have mem: "i \<in> set (map u_id (users st))"
    using assms(1) srv_findById_None[of u_id i "users st"] by auto
  have u': "users ?st' = delete_first (\<lambda>x. u_id x = i) (users st)"
    and t': "tasks ?st' = filter (\<lambda>t. t_userId t \<noteq> i) (tasks st)"
    and p': "projects ?st' = filter (\<lambda>p. p_userId p \<noteq> i) (projects st)"
    and c': "categories ?st' = categories st"
    and r: "res_status (fst (srv_delete_users (Id i) st)) = 200"
    using assms(1) by (simp_all add: srv_delete_users_def Let_def)
  have keys: "set (map u_id (users ?st')) = set (map u_id (users st)) - {i}"
    unfolding u' using assms(2) by (rule delete_first_keys)
  then have gone: "srv_findById u_id i (users ?st') = None"
    by (simp add: srv_findById_None)
  have nt: "length (tasks ?st') + length (filter (\<lambda>t. t_userId t = i) (tasks st)) = length (tasks st)"
    unfolding t' using sum_length_filter_compl[of "\<lambda>t. t_userId t = i" "tasks st"] by simp
  have np: "length (projects ?st') + length (filter (\<lambda>p. p_userId p = i) (projects st)) = length (projects st)"
    unfolding p' using sum_length_filter_compl[of "\<lambda>p. p_userId p = i" "projects st"] by simp
  have nu: "Suc (length (users ?st')) = length (users st)"
    unfolding u' using mem by (rule delete_first_length)
  have q: "srv_get_tasks e L q ?st' = srv_list_json [] (srv_pagination L q 0)"
    if "q_userId q = Some (Id i)
        \<and> store_cursor L (srv_skip L q) (srv_limit L q) ([] :: srv_task list) \<noteq> None" for e L q
  proof -
    have "filter (srv_tasks_query q) (tasks ?st') = []"
      unfolding t' using that
      by (auto simp: srv_tasks_query_def srv_userId_is_def filter_empty_conv)
    moreover have "store_cursor L (srv_skip L q) (srv_limit L q) ([] :: srv_task list) = Some []"
      using that by (simp add: store_cursor_Nil)
    ultimately show ?thesis
      using that by (simp add: srv_get_tasks_def Let_def sort_desc_Nil srv_cast_userId_def)
  qed
  from r gone keys t' p' nt np nu c' q show ?thesis by blast
qed

theorem srv_delete_users_cascade_witness:
  "srv_findById u_id 1 (users st0) = Some (hd (users st0)) \<and> distinct (map u_id (users st0))
   \<and> users (snd (srv_delete_users (Id 1) st0)) = [] \<and> tasks (snd (srv_delete_users (Id 1) st0)) = []
   \<and> srv_get_tasks e0 L0 \<lparr>q_page = None, q_limit = None, q_status = None, q_priority = None,
                     q_userId = Some (Id 1)\<rparr> (snd (srv_delete_users (Id 1) st0))
       = srv_list_json [] (srv_pagination L0 \<lparr>q_page = None, q_limit = None, q_status = None,
                                          q_priority = None, q_userId = Some (Id 1)\<rparr> 0)"
proof -
  have a: "srv_findById u_id 1 (users st0) = Some (hd (users st0))"
    by (simp add: st0_def srv_findById_def)
  have b: "distinct (map u_id (users st0))" by (simp add: st0_def)
  have c: "store_cursor L0 (srv_skip L0 \<lparr>q_page = None, q_limit = None, q_status = None,
                     q_priority = None, q_userId = Some (Id 1)\<rparr>)
             (srv_limit L0 \<lparr>q_page = None, q_limit = None, q_status = None,
                     q_priority = None, q_userId = Some (Id 1)\<rparr>) ([] :: srv_task list) \<noteq> None"
    by (simp add: srv_skip_def srv_limit_def num_param_def js_sub_def js_mul_def js_of_int_def
        store_cursor_def cursor_page_def)
  from srv_delete_users_cascade [OF a b] a b c show ?thesis
    by (simp add: st0_def)
qed

subsection \<open>Creating a user with an email already in use\<close>

lemma email_ok: "srv_email_match ''ann@x.org''"
  by (simp add: srv_email_match_def ws_prefix_def ws_encodings_def)

lemma js_length_examples:
  "js_length ''bob'' = 3" "js_length ''secret2'' = 7" "js_length ''carol'' = 5"
  "js_length ''secret3'' = 7"
  by (simp_all add: js_length_def cp_length_def)

text \<open>
  Claim C6. The claim asks for status 409 on the second creation with an email that a user
  already has. The store's duplicate-key error reaches the global error handler, which
  answers 400 with the message \<^verbatim>\<open>email already exists\<close>; the first user's record is
  unaffected. Evaluated here on a store holding \<^verbatim>\<open>ann@x.org\<close> and a second request with
  another username and that email.
\<close>

theorem srv_post_users_duplicate_email_400:
  "res_status (fst (srv_post_users e0 bob_body st0)) = 400
   \<and> response_message (fst (srv_post_users e0 bob_body st0)) = ''email already exists''
   \<and> snd (srv_post_users e0 bob_body st0) = st0"
  by (simp add: srv_post_users_def bob_body_def st0_def e0_def truthy_def str_of_def
      srv_save_user_def srv_username_errors_def srv_email_errors_def srv_password_errors_def
      first_error_def check_required_def check_minlength_def check_maxlength_def email_ok
      js_length_examples
      srv_error_handler_def response_message_def jget_def)

theorem srv_post_users_duplicate_email_400_witness:
  "res_status (fst (srv_post_users e0 bob_body st0)) = 400
   \<and> snd (srv_post_users e0 bob_body st0) = st0"
  using srv_post_users_duplicate_email_400 by (elim conjE) (intro conjI; assumption)

text \<open>Whatever else the second request holds, the answer to an email already in the
  store is a 400 and the store is left as it was.\<close>

lemma srv_post_users_duplicate_email:
  assumes "b_email b = Some em" and "em \<in> set (map u_email (users st))"
  shows "res_status (fst (srv_post_users e b st)) = 400 \<and> snd (srv_post_users e b st) = st"
  using assms
  by (auto simp: srv_post_users_def srv_save_user_def Let_def fail_json_def srv_error_handler_def
      str_of_def split: sum.splits)

section \<open>Properties of request validation\<close>

lemma find_None_ids: "find (\<lambda>x. f x = i) xs = None \<longleftrightarrow> i \<notin> set (map f xs)"
  by (auto simp: find_None_iff)

lemma handleValidationErrors_Nil: "handleValidationErrors [] = None"
  by (simp add: handleValidationErrors_def)

lemma handleValidationErrors_Some:
  "errs \<noteq> [] \<Longrightarrow> \<exists>r. handleValidationErrors errs = Some r \<and> res_status r = 400
     \<and> response_errors r = map error_json errs \<and> response_message r = ''Validation failed''"
  by (simp add: handleValidationErrors_def response_errors_def response_message_def jget_def)

lemma verify_assigned_dangling:
  "i \<notin> set (map usr_id us) \<Longrightarrow>
   verify_assigned m (Some (Id i)) us = Some (fail_json 400 ''Assigned user not found'')"
  by (simp add: verify_assigned_def truthy_id_def findById_def find_None_ids[symmetric] del: set_map)

lemma sanitize_assignedTo: "bd_assignedTo (sanitize_body b) = bd_assignedTo b"
  by (simp add: sanitize_body_def)

lemma run_validators_complete:
  "vm \<in> set vs \<Longrightarrow> \<not> fst vm (snd inst) \<Longrightarrow>
   \<lparr>ve_path = fst inst, ve_msg = snd vm, ve_value = snd inst\<rparr> \<in> set (run_validators vs inst)"
  by (auto simp: run_validators_def)

lemma run_chain_complete:
  assumes "inst \<in> set (ch_select c req)" and "vm \<in> set (ch_validators c)"
      and "\<not> (ch_optional c \<and> snd inst = None)" and "\<not> fst vm (snd inst)"
  shows "\<lparr>ve_path = fst inst, ve_msg = snd vm, ve_value = snd inst\<rparr> \<in> set (run_chain c req)"
proof -
  have "\<lparr>ve_path = fst inst, ve_msg = snd vm, ve_value = snd inst\<rparr>
          \<in> set (run_validators (ch_validators c) inst)"
    using assms(2,4) by (rule run_validators_complete)
  then show ?thesis
    unfolding run_chain_def using assms(1,3) by (auto intro!: bexI[of _ inst])
qed

lemma validationResult_complete:
  assumes "c \<in> set rules" and "inst \<in> set (ch_select c req)" and "vm \<in> set (ch_validators c)"
      and "\<not> (ch_optional c \<and> snd inst = None)" and "\<not> fst vm (snd inst)"
  shows "\<lparr>ve_path = fst inst, ve_msg = snd vm, ve_value = snd inst\<rparr>
           \<in> set (validationResult rules req)"
  unfolding validationResult_def
  using run_chain_complete[OF assms(2-5)] assms(1) by auto

lemma validationResult_sound:
  assumes "err \<in> set (validationResult rules req)"
  shows "\<exists>c \<in> set rules. \<exists>inst \<in> set (ch_select c req). \<exists>vm \<in> set (ch_validators c).
           \<not> fst vm (snd inst) \<and> err = \<lparr>ve_path = fst inst, ve_msg = snd vm, ve_value = snd inst\<rparr>"
  using assms
  by (auto simp: validationResult_def run_chain_def run_validators_def split: if_splits)

lemma handleValidationErrors_reject:
  assumes "errs \<noteq> []"
  shows "handleValidationErrors errs =
           Some \<lparr>res_status = 400,
                 res_body = JObj [(''success'', JBool False), (''message'', JStr ''Validation failed''),
                                  (''errors'', JArr (map error_json errs))]\<rparr>"
  using assms by (simp add: handleValidationErrors_def)

lemma malformed_assignedTo_rejected:
  assumes "bd_assignedTo b = Some (NotAnId s)"
  shows "validationResult (taskValidationRules_create e L) b \<noteq> []"
proof -
  let ?c = "\<lparr>ch_select = id_field ''assignedTo'' bd_assignedTo, ch_optional = True,
             ch_validators = [(isMongoId, ''Assigned user ID must be a valid MongoDB ObjectId'')]\<rparr>
            :: task_body chain"
  have c: "?c \<in> set (taskValidationRules_create e L)"
    by (simp add: taskValidationRules_create_def task_common_rules_def)
  have i: "(''assignedTo'', Some (JStr s)) \<in> set (ch_select ?c b)"
    using assms by (simp add: id_field_def raw_id_json_def)
  have "\<lparr>ve_path = fst (''assignedTo'', Some (JStr s)),
         ve_msg = snd (isMongoId, ''Assigned user ID must be a valid MongoDB ObjectId''),
         ve_value = snd (''assignedTo'', Some (JStr s))\<rparr>
          \<in> set (validationResult (taskValidationRules_create e L) b)"
    by (rule validationResult_complete[OF c i]) (simp_all add: isMongoId_def)
  then show ?thesis by auto
qed


section \<open>Properties of the task routes\<close>

subsection \<open>Creating a task that references a missing user\<close>

text \<open>
  Claim C4, as stated, promises the message \<^verbatim>\<open>Assigned user not found\<close> also for a
  \<^verbatim>\<open>userId\<close> reference. The single-file server answers such a request with the message
  \<^verbatim>\<open>Invalid userId\<close>.
\<close>

theorem srv_post_tasks_message_counterexample:
  "response_message (fst (srv_post_tasks e0 srv_dangling_body st0)) \<noteq> ''Assigned user not found''"
  by (simp add: srv_post_tasks_def srv_dangling_body_def st0_def truthy_def truthy_id_def
      srv_findById_def fail_json_def response_message_def jget_def)

text \<open>
  Claim C4, amended. A create request whose \<^verbatim>\<open>assignedTo\<close> (modular server) or \<^verbatim>\<open>userId\<close>
  (single-file server) is the id of no user leaves the store unchanged, so no task is
  persisted. When the reference is an ObjectId, the answer has status 400, and when the
  request passes the route's input checks (the create rules; a non-empty title) it is
  exactly the reference error: message \<^verbatim>\<open>Assigned user not found\<close> on the modular server and
  \<^verbatim>\<open>Invalid userId\<close> on the single-file server. When the reference is a string that is no
  ObjectId, the modular server answers 400 with the message \<^verbatim>\<open>Validation failed\<close>, and the
  single-file server, given a non-empty title and a non-empty reference, answers with the
  global error handler's 500 (400 \<^verbatim>\<open>Title and userId are required\<close> otherwise).
\<close>

theorem post_task_dangling_reference:
  "(bd_assignedTo b = Some (Id i) \<and> i \<notin> set (map usr_id (st_users st)) \<longrightarrow>
      res_status (fst (post_task e L b st)) = 400 \<and> snd (post_task e L b st) = st \<and>
      (validationResult (taskValidationRules_create e L) b = [] \<longrightarrow>
         fst (post_task e L b st) = fail_json 400 ''Assigned user not found''))
   \<and> (bd_assignedTo b = Some (NotAnId s) \<longrightarrow>
      res_status (fst (post_task e L b st)) = 400 \<and> snd (post_task e L b st) = st \<and>
      response_message (fst (post_task e L b st)) = ''Validation failed'')
   \<and> (tb_userId sb = Some (Id j) \<and> j \<notin> set (map u_id (users sst)) \<longrightarrow>
      res_status (fst (srv_post_tasks e sb sst)) = 400 \<and> snd (srv_post_tasks e sb sst) = sst \<and>
      (truthy (tb_title sb) \<longrightarrow> fst (srv_post_tasks e sb sst) = fail_json 400 ''Invalid userId''))
   \<and> (tb_userId sb = Some (NotAnId s') \<longrightarrow>
      snd (srv_post_tasks e sb sst) = sst \<and>
      fst (srv_post_tasks e sb sst)
        = (if truthy (tb_title sb) \<and> s' \<noteq> [] then srv_error_handler CastError
           else fail_json 400 ''Title and userId are required'') \<and>
      res_status (srv_error_handler CastError) = 500)"
proof (intro conjI impI)
  assume a: "bd_assignedTo b = Some (Id i) \<and> i \<notin> set (map usr_id (st_users st))"
  then have v: "verify_assigned ''Server error while creating task'' (bd_assignedTo (sanitize_body b))
                  (st_users st) = Some (fail_json 400 ''Assigned user not found'')"
    by (simp add: sanitize_assignedTo verify_assigned_dangling del: set_map)
  have h: "post_task_handler e (sanitize_body b) st = (fail_json 400 ''Assigned user not found'', st)"
    using v by (simp add: post_task_handler_def Let_def)
  show "res_status (fst (post_task e L b st)) = 400"
    using h by (auto simp: post_task_def handleValidationErrors_def fail_json_def)
  show "snd (post_task e L b st) = st"
    using h by (auto simp: post_task_def handleValidationErrors_def)
  show "fst (post_task e L b st) = fail_json 400 ''Assigned user not found''"
    if "validationResult (taskValidationRules_create e L) b = []"
    using h that by (simp add: post_task_def handleValidationErrors_def)
next
  assume a: "bd_assignedTo b = Some (NotAnId s)"
  note h = handleValidationErrors_reject[OF malformed_assignedTo_rejected[OF a, of e L]]
  show "res_status (fst (post_task e L b st)) = 400" by (simp add: post_task_def h)
  show "snd (post_task e L b st) = st" by (simp add: post_task_def h)
  show "response_message (fst (post_task e L b st)) = ''Validation failed''"
    by (simp add: post_task_def h response_message_def jget_def)
next
  assume a: "tb_userId sb = Some (Id j) \<and> j \<notin> set (map u_id (users sst))"
  then have f: "srv_findById u_id j (users sst) = None"
    by (simp add: srv_findById_def find_None_ids[symmetric] del: set_map)
  show "res_status (fst (srv_post_tasks e sb sst)) = 400"
    using a f by (simp add: srv_post_tasks_def fail_json_def truthy_id_def)
  show "snd (srv_post_tasks e sb sst) = sst"
    using a f by (simp add: srv_post_tasks_def truthy_id_def)
  show "fst (srv_post_tasks e sb sst) = fail_json 400 ''Invalid userId''" if "truthy (tb_title sb)"
    using a f that by (simp add: srv_post_tasks_def truthy_id_def)
next
  assume a: "tb_userId sb = Some (NotAnId s')"
  show "snd (srv_post_tasks e sb sst) = sst"
    using a by (simp add: srv_post_tasks_def truthy_id_def)
  show "fst (srv_post_tasks e sb sst)
        = (if truthy (tb_title sb) \<and> s' \<noteq> [] then srv_error_handler CastError
           else fail_json 400 ''Title and userId are required'')"
    using a by (simp add: srv_post_tasks_def truthy_id_def)
  show "res_status (srv_error_handler CastError) = 500"
    by (simp add: srv_error_handler_def)
qed

lemma val_length_examples:
  "val_length ''T'' = 1" "val_length ''Write spec'' = 10" "val_length [] = 0"
  by (simp_all add: val_length_def cp_length_def)

lemma create_rules_pass_dangling:
  "validationResult (taskValidationRules_create e0 L0) dangling_body = []"
  by (simp add: validationResult_def taskValidationRules_create_def task_common_rules_def
      run_chain_def run_validators_def text_field_def id_field_def tags_field_def tags_items_def
      dangling_body_def no_body_def notEmpty_def isLength_def to_str_def isMongoId_def
      raw_id_json_def val_length_examples)

theorem post_task_dangling_reference_witness:
  "bd_assignedTo dangling_body = Some (Id 5) \<and> 5 \<notin> set (map usr_id (st_users st1))
   \<and> validationResult (taskValidationRules_create e0 L0) dangling_body = []
   \<and> post_task e0 L0 dangling_body st1 = (fail_json 400 ''Assigned user not found'', st1)
   \<and> tb_userId srv_dangling_body = Some (Id 5) \<and> 5 \<notin> set (map u_id (users st0))
   \<and> truthy (tb_title srv_dangling_body)
   \<and> srv_post_tasks e0 srv_dangling_body st0 = (fail_json 400 ''Invalid userId'', st0)
   \<and> tb_userId srv_malformed_body = Some (NotAnId ''abc'')
   \<and> srv_post_tasks e0 srv_malformed_body st0 = (srv_error_handler CastError, st0)
   \<and> res_status (srv_error_handler CastError) = 500"
proof -
  have a: "bd_assignedTo dangling_body = Some (Id 5) \<and> 5 \<notin> set (map usr_id (st_users st1))"
    by (simp add: dangling_body_def no_body_def st1_def ann_def)
  have b: "tb_userId srv_dangling_body = Some (Id 5) \<and> 5 \<notin> set (map u_id (users st0))"
    by (simp add: srv_dangling_body_def st0_def)
  have c: "truthy (tb_title srv_dangling_body)"
    by (simp add: srv_dangling_body_def truthy_def)
  have d: "tb_userId srv_malformed_body = Some (NotAnId ''abc'')"
    "truthy (tb_title srv_malformed_body) \<and> ''abc'' \<noteq> []"
    by (simp_all add: srv_malformed_body_def srv_dangling_body_def truthy_def)
  from post_task_dangling_reference [where b = dangling_body and i = 5 and st = st1 and e = e0
      and L = L0 and sb = srv_dangling_body and j = 5 and sst = st0]
    a b c create_rules_pass_dangling
  have one: "post_task e0 L0 dangling_body st1 = (fail_json 400 ''Assigned user not found'', st1)
      \<and> srv_post_tasks e0 srv_dangling_body st0 = (fail_json 400 ''Invalid userId'', st0)"
    by (metis prod.collapse)
  from post_task_dangling_reference [where e = e0 and sb = srv_malformed_body and s' = "''abc''"
      and sst = st0] d
  have two: "srv_post_tasks e0 srv_malformed_body st0 = (srv_error_handler CastError, st0)
      \<and> res_status (srv_error_handler CastError) = 500"
    by (metis prod.collapse)
  from a b c d(1) create_rules_pass_dangling one two show ?thesis
    by (elim conjE) (intro conjI; assumption)
qed

subsection \<open>The create path\<close>

lemma pre_save_modified_completion: "completion_ok (pre_save e True t)"
  by (simp add: pre_save_def completion_ok_def)

lemma save_new_completion:
  "save_new e p st = Inr (t, st') \<Longrightarrow> tp_status p \<noteq> None \<Longrightarrow>
     completion_ok t \<and> st_tasks st' = st_tasks st @ [t] \<and> st_users st' = st_users st"
  by (auto simp: save_new_def Let_def pre_save_modified_completion split: if_splits)

lemma populate_createdBy:
  "populate_one e us [''assignedTo'', ''createdBy''] (Some t) = Inl StrictPopulateError"
  by (simp add: populate_one_def populate_def task_schema_paths_def)


text \<open>Whatever a create request holds, it leaves the task collection as it was or appends
  one task, which has \<^verbatim>\<open>completedAt\<close> exactly when its status is \<^verbatim>\<open>completed\<close>.\<close>

lemma post_task_handler_completion:
  "st_tasks (snd (post_task_handler e b st)) = st_tasks st
   \<or> (\<exists>t. st_tasks (snd (post_task_handler e b st)) = st_tasks st @ [t] \<and> completion_ok t)"
proof (cases "verify_assigned ''Server error while creating task'' (bd_assignedTo b) (st_users st)")
  case (Some r)
  then show ?thesis by (simp add: post_task_handler_def Let_def)
next
  case None
  let ?p = "\<lparr>tp_title = bd_title b, tp_description = bd_description b,
             tp_status = Some (case bd_status b of None \<Rightarrow> ''pending'' | Some v \<Rightarrow> v),
             tp_priority = Some (case bd_priority b of None \<Rightarrow> ''medium'' | Some v \<Rightarrow> v),
             tp_category = bd_category b, tp_assignedTo = bd_assignedTo b,
             tp_dueDate = bd_dueDate b, tp_tags = bd_tags b,
             tp_updatedAt = None, tp_completedAt = None\<rparr>"
  show ?thesis
  proof (cases "save_new e ?p st")
    case (Inl err)
    then show ?thesis using None by (simp add: post_task_handler_def Let_def)
  next
    case (Inr r)
    then have s: "save_new e ?p st = Inr (fst r, snd r)" by simp
    have "snd (post_task_handler e b st) = snd r"
      using None Inr
      by (simp add: post_task_handler_def Let_def populate_createdBy split: prod.splits)
    moreover have "completion_ok (fst r) \<and> st_tasks (snd r) = st_tasks st @ [fst r]"
      using save_new_completion[OF s] by simp
    ultimately show ?thesis by auto
  qed
qed

lemma post_task_completion:
  "st_tasks (snd (post_task e L b st)) = st_tasks st
   \<or> (\<exists>t. st_tasks (snd (post_task e L b st)) = st_tasks st @ [t] \<and> completion_ok t)"
proof (cases "handleValidationErrors (validationResult (taskValidationRules_create e L) b)")
  case None
  then show ?thesis
    using post_task_handler_completion[of e "sanitize_body b" st] by (simp add: post_task_def)
next
  case (Some r)
  then show ?thesis by (simp add: post_task_def)
qed

lemma update_first_find:
  "find P (update_first P f xs) = map_option f (find P xs)" if "\<And>x. P x \<Longrightarrow> P (f x)"
  using that by (induction xs) auto

subsection \<open>The completion timestamp across the write paths\<close>

lemma put_rules_pass_completed:
  "validationResult (taskValidationRules_update e0 L0) (Id 7, completed_body) = []"
  by (simp add: validationResult_def taskValidationRules_update_def task_common_rules_def
      on_body_def run_chain_def run_validators_def text_field_def id_field_def tags_field_def
      tags_items_def completed_body_def no_body_def isIn_def to_str_def isMongoId_def
      raw_id_json_def status_values_def)

lemma put_rules_pass_pending:
  "validationResult (taskValidationRules_update e0 L0) (Id 8, pending_body) = []"
  by (simp add: validationResult_def taskValidationRules_update_def task_common_rules_def
      on_body_def run_chain_def run_validators_def text_field_def id_field_def tags_field_def
      tags_items_def pending_body_def no_body_def isIn_def to_str_def isMongoId_def
      raw_id_json_def status_values_def)

lemma put_completed_stored:
  "snd (put_task_handler e0 (Id 7) (sanitize_body completed_body) st1) =
      st1\<lparr>st_tasks := [task_a\<lparr>tk_status := ''completed'', tk_updatedAt := 1000\<rparr>, task_b, task_c,
                        task_d]\<rparr>"
  by (simp add: put_task_handler_def findById_def verify_assigned_def findByIdAndUpdate_def
      cast_errors_def path_errors_def srv_opt_errors_def check_enum_def status_values_def
      dueDate_errors_def cast_dueDate_def apply_paths_def sanitize_body_def populate_createdBy
      put_paths_def
      st1_def task_a_def task_b_def task_c_def task_d_def e0_def no_body_def completed_body_def)

lemma put_pending_stored:
  "snd (put_task_handler e0 (Id 8) (sanitize_body pending_body) st1) =
      st1\<lparr>st_tasks := [task_a, task_b\<lparr>tk_status := ''pending'', tk_updatedAt := 1000\<rparr>, task_c,
                        task_d]\<rparr>"
  by (simp add: put_task_handler_def findById_def verify_assigned_def findByIdAndUpdate_def
      cast_errors_def path_errors_def srv_opt_errors_def check_enum_def status_values_def
      dueDate_errors_def cast_dueDate_def apply_paths_def sanitize_body_def populate_createdBy
      put_paths_def
      st1_def task_a_def task_b_def task_c_def task_d_def e0_def no_body_def pending_body_def)

text \<open>
  Claim C1. After a write the stored task should have \<^verbatim>\<open>completedAt\<close> exactly when its
  status is \<^verbatim>\<open>completed\<close>. The create path keeps this (through the pre-save middleware, see
  \<open>post_task_completion\<close>). The full update goes through \<^verbatim>\<open>findByIdAndUpdate\<close>, on which the
  middleware does not run, and its handler never sets \<^verbatim>\<open>completedAt\<close>: in the store with the
  pending task 7 and the completed task 8, \<^verbatim>\<open>PUT\<close> with status \<^verbatim>\<open>completed\<close> on task 7 stores
  status \<^verbatim>\<open>completed\<close> without \<^verbatim>\<open>completedAt\<close>, and \<^verbatim>\<open>PUT\<close> with status \<^verbatim>\<open>pending\<close> on task 8
  stores status \<^verbatim>\<open>pending\<close> with the old \<^verbatim>\<open>completedAt\<close>. Stated on the stored records
  (id, status, \<^verbatim>\<open>completedAt\<close>), whatever the response is.
\<close>

theorem put_completedAt_divergence:
  "completion_view st1 =
     [(7, ''pending'', None), (8, ''completed'', Some 950), (9, ''pending'', None),
      (10, ''in-progress'', None)]
   \<and> completion_view (snd (put_task e0 L0 (Id 7) completed_body st1)) =
       [(7, ''completed'', None), (8, ''completed'', Some 950), (9, ''pending'', None),
        (10, ''in-progress'', None)]
   \<and> completion_view (snd (put_task e0 L0 (Id 8) pending_body st1)) =
       [(7, ''pending'', None), (8, ''pending'', Some 950), (9, ''pending'', None),
        (10, ''in-progress'', None)]"
proof -
  have p: "put_task e0 L0 (Id 7) completed_body st1 =
             put_task_handler e0 (Id 7) (sanitize_body completed_body) st1"
    by (simp add: put_task_def put_rules_pass_completed handleValidationErrors_def)
  have s: "put_task e0 L0 (Id 8) pending_body st1 =
             put_task_handler e0 (Id 8) (sanitize_body pending_body) st1"
    by (simp add: put_task_def put_rules_pass_pending handleValidationErrors_def)
  show ?thesis
    unfolding p s put_completed_stored put_pending_stored
    by (simp add: completion_view_def st1_def task_a_def task_b_def task_c_def task_d_def)
qed

theorem put_completedAt_divergence_witness:
  "completion_view (snd (put_task e0 L0 (Id 7) completed_body st1)) =
       [(7, ''completed'', None), (8, ''completed'', Some 950), (9, ''pending'', None),
        (10, ''in-progress'', None)]
   \<and> completion_view (snd (put_task e0 L0 (Id 8) pending_body st1)) =
       [(7, ''pending'', None), (8, ''pending'', Some 950), (9, ''pending'', None),
        (10, ''in-progress'', None)]"
  using put_completedAt_divergence by (elim conjE) (intro conjI; assumption)


text \<open>The same for every store and every request: a full update leaves \<^verbatim>\<open>completedAt\<close> of
  the task as it was, whatever status it sets.\<close>

lemma put_task_handler_store:
  "snd (put_task_handler e (Id i) b st) = st
   \<or> snd (put_task_handler e (Id i) b st)
       = st\<lparr>st_tasks := update_first (\<lambda>t. tk_id t = i) (apply_paths e (put_paths e b)) (st_tasks st)\<rparr>"
  by (simp add: put_task_handler_def findById_def findByIdAndUpdate_def Let_def
      split: option.splits sum.splits prod.splits)

lemma apply_put_paths_completedAt:
  "tk_completedAt (apply_paths e (put_paths e b) t) = tk_completedAt t"
  "tk_id (apply_paths e p t) = tk_id t"
  by (simp_all add: apply_paths_def put_paths_def)

lemma put_task_keeps_completedAt:
  assumes "find (\<lambda>t. tk_id t = i) (st_tasks st) = Some t"
  shows "\<exists>t'. find (\<lambda>t. tk_id t = i) (st_tasks (snd (put_task e L (Id i) b st))) = Some t'
              \<and> tk_completedAt t' = tk_completedAt t"
proof -
  have upd: "find (\<lambda>t. tk_id t = i) (update_first (\<lambda>t. tk_id t = i) (apply_paths e p) (st_tasks st))
               = Some (apply_paths e p t)" for p
    using update_first_find[of "\<lambda>t. tk_id t = i" "apply_paths e p" "st_tasks st"] assms
    by (simp add: apply_put_paths_completedAt)
  have h: "\<exists>t'. find (\<lambda>t. tk_id t = i) (st_tasks (snd (put_task_handler e (Id i) b' st))) = Some t'
           \<and> tk_completedAt t' = tk_completedAt t" for b'
    using put_task_handler_store[of e i b' st] assms upd[of "put_paths e b'"]
    by (auto simp: apply_put_paths_completedAt)
  show ?thesis
  proof (cases "handleValidationErrors (validationResult (taskValidationRules_update e L) (Id i, b))")
    case None
    then show ?thesis using h[of "sanitize_body b"] by (simp add: put_task_def)
  next
    case (Some r)
    then show ?thesis using assms by (simp add: put_task_def)
  qed
qed

subsection \<open>Numbers in query strings\<close>














subsection \<open>The query rules\<close>

lemma run_chain_text_field:
  "run_chain \<lparr>ch_select = text_field name g, ch_optional = True, ch_validators = [(p, m)]\<rparr> q = [] \<longleftrightarrow>
     (case g q of None \<Rightarrow> True | Some s \<Rightarrow> p (Some (JStr s)))"
  by (simp add: run_chain_def run_validators_def text_field_def split: option.splits)

lemma run_chain_id_field:
  "run_chain \<lparr>ch_select = id_field name g, ch_optional = True, ch_validators = [(isMongoId, m)]\<rparr> q = [] \<longleftrightarrow>
     (case g q of None \<Rightarrow> True | Some (Id i) \<Rightarrow> True | Some (NotAnId s) \<Rightarrow> False)"
  by (simp add: run_chain_def run_validators_def id_field_def isMongoId_def raw_id_json_def
      split: option.splits raw_id.splits)

lemma query_rules_pass:
  assumes "validationResult taskValidationRules_query q = []"
  shows "(case tq_page q of None \<Rightarrow> True | Some s \<Rightarrow> isInt (Some 1) None s)"
    and "(case tq_limit q of None \<Rightarrow> True | Some s \<Rightarrow> isInt (Some 1) (Some 100) s)"
    and "(case tq_status q of None \<Rightarrow> True | Some s \<Rightarrow> s \<in> set status_values)"
    and "(case tq_assignedTo q of None \<Rightarrow> True | Some (Id i) \<Rightarrow> True | Some (NotAnId s) \<Rightarrow> False)"
  using assms
  unfolding validationResult_def taskValidationRules_query_def
  by (simp_all add: run_chain_text_field run_chain_id_field isIn_def to_str_def split: option.splits)

text \<open>A query that passes the rules has a page of at least 1 and a limit between 1 and 100,
  each absent or a plain decimal integer numeral.\<close>

lemma query_rules_page:
  assumes "validationResult taskValidationRules_query q = []"
  shows "\<exists>p l. plain_param 1 (tq_page q) p \<and> plain_param 10 (tq_limit q) l
           \<and> 1 \<le> p \<and> 1 \<le> l \<and> l \<le> 100"
proof -
  have "\<exists>p. plain_param 1 (tq_page q) p \<and> 1 \<le> p"
    using query_rules_pass(1)[OF assms]
    by (auto simp: plain_param_def isInt_def split: option.splits)
  moreover have "\<exists>l. plain_param 10 (tq_limit q) l \<and> 1 \<le> l \<and> l \<le> 100"
    using query_rules_pass(2)[OF assms]
    by (auto simp: plain_param_def isInt_def split: option.splits)
  ultimately show ?thesis by blast
qed





lemma set_sort_tasks: "set (sort_tasks e sortBy asc ts) = set ts"
  by (simp add: sort_tasks_def sort_by_def sort_asc_def sort_desc_def Let_def)





subsection \<open>Pagination of the list endpoints\<close>






text \<open>Outside the plain numerals the two coercions of the single-file server part: for the
  limit \<^verbatim>\<open>1e1\<close>, which \<^verbatim>\<open>Number\<close> reads as 10 and \<^verbatim>\<open>parseInt\<close> as 1, the cursor takes ten
  documents and the page count is that of ten per page, while the reported limit is 1.\<close>

lemma srv_limit_1e1:
  assumes "toNumber L ''1e1'' = SafeInt 10"
  shows "srv_limit L (srv_no_query\<lparr>q_limit := Some ''1e1''\<rparr>) = SafeInt 10"
    and "srv_pagination L (srv_no_query\<lparr>q_limit := Some ''1e1''\<rparr>) 25 =
           JObj [(''page'', JNum 1), (''limit'', JNum 1), (''total'', JNum 25),
                 (''pages'', JNum 3)]"
proof -
  have n: "js_Number L ''1e1'' = SafeInt 10"
    using assms by (simp add: js_Number_def int_syntax_def strip_sign_def is_digit_def)
  have p: "parseInt L ''1e1'' = SafeInt 1"
    by (simp add: parseInt_def ws_prefix_def ws_encodings_def strip_sign_def
        parse_magnitude_def is_digit_def digits_val_def digit_val_def js_signed_def
        js_of_int_def)
  show "srv_limit L (srv_no_query\<lparr>q_limit := Some ''1e1''\<rparr>) = SafeInt 10"
    by (simp add: srv_limit_def srv_no_query_def num_param_def n js_mul_def js_of_int_def)
  show "srv_pagination L (srv_no_query\<lparr>q_limit := Some ''1e1''\<rparr>) 25 =
           JObj [(''page'', JNum 1), (''limit'', JNum 1), (''total'', JNum 25),
                 (''pages'', JNum 3)]"
    by (simp add: srv_pagination_def srv_no_query_def num_param_def n p js_ceil_div_def
        ceil_div_def json_of_num_def)
qed

subsection \<open>The overdue filter\<close>












subsection \<open>Validation errors\<close>

text \<open>
  Claim C7. When the validation of a request records at least one error, the route answers
  400 before its handler (and so any store call) runs: the store is unchanged, and the
  \<^verbatim>\<open>errors\<close> array of the response is the list of all recorded errors, each as
  \<^verbatim>\<open>{field, message, value}\<close>, in order. Every field instance that fails a validator of a
  chain that is not skipped has its entry in the array, so \<open>k\<close> failing fields give at least
  \<open>k\<close> entries, one or more for each of them. Shown for the three routes with rule sets
  (create, update, list).
\<close>

theorem validation_errors_aggregated:
  "(validationResult (taskValidationRules_create e L) b \<noteq> [] \<longrightarrow>
      res_status (fst (post_task e L b st)) = 400
      \<and> snd (post_task e L b st) = st
      \<and> response_errors (fst (post_task e L b st))
          = map error_json (validationResult (taskValidationRules_create e L) b))
   \<and> (validationResult (taskValidationRules_update e L) (r, b) \<noteq> [] \<longrightarrow>
      res_status (fst (put_task e L r b st)) = 400
      \<and> snd (put_task e L r b st) = st
      \<and> response_errors (fst (put_task e L r b st))
          = map error_json (validationResult (taskValidationRules_update e L) (r, b)))
   \<and> (validationResult taskValidationRules_query q \<noteq> [] \<longrightarrow>
      res_status (get_tasks e L q st) = 400
      \<and> response_errors (get_tasks e L q st)
          = map error_json (validationResult taskValidationRules_query q))
   \<and> (\<forall>c \<in> set (taskValidationRules_create e L). \<forall>inst \<in> set (ch_select c b).
        \<forall>vm \<in> set (ch_validators c).
          \<not> (ch_optional c \<and> snd inst = None) \<and> \<not> fst vm (snd inst) \<longrightarrow>
          error_json \<lparr>ve_path = fst inst, ve_msg = snd vm, ve_value = snd inst\<rparr>
            \<in> set (response_errors (fst (post_task e L b st))))"
proof (intro conjI impI ballI)
  assume a: "validationResult (taskValidationRules_create e L) b \<noteq> []"
  note h = handleValidationErrors_reject[OF a]
  show "res_status (fst (post_task e L b st)) = 400" by (simp add: post_task_def h)
  show "snd (post_task e L b st) = st" by (simp add: post_task_def h)
  show "response_errors (fst (post_task e L b st))
          = map error_json (validationResult (taskValidationRules_create e L) b)"
    by (simp add: post_task_def h response_errors_def jget_def)
next
  assume a: "validationResult (taskValidationRules_update e L) (r, b) \<noteq> []"
  note h = handleValidationErrors_reject[OF a]
  show "res_status (fst (put_task e L r b st)) = 400" by (simp add: put_task_def h)
  show "snd (put_task e L r b st) = st" by (simp add: put_task_def h)
  show "response_errors (fst (put_task e L r b st))
          = map error_json (validationResult (taskValidationRules_update e L) (r, b))"
    by (simp add: put_task_def h response_errors_def jget_def)
next
  assume a: "validationResult taskValidationRules_query q \<noteq> []"
  note h = handleValidationErrors_reject[OF a]
  show "res_status (get_tasks e L q st) = 400" by (simp add: get_tasks_def h)
  show "response_errors (get_tasks e L q st)
          = map error_json (validationResult taskValidationRules_query q)"
    by (simp add: get_tasks_def h response_errors_def jget_def)
next
  fix c inst vm
  assume c: "c \<in> set (taskValidationRules_create e L)" and i: "inst \<in> set (ch_select c b)"
     and v: "vm \<in> set (ch_validators c)"
     and f: "\<not> (ch_optional c \<and> snd inst = None) \<and> \<not> fst vm (snd inst)"
  let ?err = "\<lparr>ve_path = fst inst, ve_msg = snd vm, ve_value = snd inst\<rparr>"
  have m: "?err \<in> set (validationResult (taskValidationRules_create e L) b)"
    using c i v f by (intro validationResult_complete) blast+
  then have ne: "validationResult (taskValidationRules_create e L) b \<noteq> []" by auto
  have "response_errors (fst (post_task e L b st))
          = map error_json (validationResult (taskValidationRules_create e L) b)"
    by (simp add: post_task_def handleValidationErrors_reject[OF ne] response_errors_def jget_def)
  then show "error_json ?err \<in> set (response_errors (fst (post_task e L b st)))"
    using m by simp
qed

lemma bad_body_errors:
  "validationResult (taskValidationRules_create e0 L0) bad_body =
     [\<lparr>ve_path = ''title'', ve_msg = ''Title is required'', ve_value = Some (JStr '''')\<rparr>,
      \<lparr>ve_path = ''title'', ve_msg = ''Title must be between 1 and 100 characters'',
        ve_value = Some (JStr '''')\<rparr>,
      \<lparr>ve_path = ''priority'', ve_msg = ''Priority must be low, medium, high, or urgent'',
        ve_value = Some (JStr ''highest'')\<rparr>,
      \<lparr>ve_path = ''assignedTo'', ve_msg = ''Assigned user ID must be a valid MongoDB ObjectId'',
        ve_value = Some (JStr ''x'')\<rparr>]"
  by (simp add: validationResult_def taskValidationRules_create_def task_common_rules_def
      run_chain_def run_validators_def text_field_def id_field_def tags_field_def tags_items_def
      bad_body_def no_body_def notEmpty_def isLength_def val_length_examples isIn_def to_str_def isMongoId_def
      raw_id_json_def priority_values_def)

theorem validation_errors_aggregated_witness:
  "validationResult (taskValidationRules_create e0 L0) bad_body \<noteq> []
   \<and> res_status (fst (post_task e0 L0 bad_body st1)) = 400
   \<and> snd (post_task e0 L0 bad_body st1) = st1
   \<and> response_errors (fst (post_task e0 L0 bad_body st1)) =
       [JObj [(''field'', JStr ''title''), (''message'', JStr ''Title is required''),
              (''value'', JStr '''')],
        JObj [(''field'', JStr ''title''),
              (''message'', JStr ''Title must be between 1 and 100 characters''),
              (''value'', JStr '''')],
        JObj [(''field'', JStr ''priority''),
              (''message'', JStr ''Priority must be low, medium, high, or urgent''),
              (''value'', JStr ''highest'')],
        JObj [(''field'', JStr ''assignedTo''),
              (''message'', JStr ''Assigned user ID must be a valid MongoDB ObjectId''),
              (''value'', JStr ''x'')]]"
proof -
  have ne: "validationResult (taskValidationRules_create e0 L0) bad_body \<noteq> []"
    by (simp add: bad_body_errors)
  from validation_errors_aggregated [of e0 L0 bad_body st1] ne
  have "res_status (fst (post_task e0 L0 bad_body st1)) = 400
      \<and> snd (post_task e0 L0 bad_body st1) = st1
      \<and> response_errors (fst (post_task e0 L0 bad_body st1))
          = map error_json (validationResult (taskValidationRules_create e0 L0) bad_body)"
    by blast
  then show ?thesis using ne
    by (simp add: bad_body_errors error_json_def opt_field_def)
qed

subsection \<open>Creating a task and fetching it\<close>

lemma jget_JObj: "jget k (JObj kvs) = map_of kvs k"
  by (simp add: jget_def)

lemma find_appended_fresh:
  "i \<notin> set (map f xs) \<Longrightarrow> f x = i \<Longrightarrow> find (\<lambda>y. f y = i) (xs @ [x]) = Some x"
  by (induction xs) auto

lemma trim_example: "trim ''Write spec'' = ''Write spec''"
  by (simp add: trim_def ws_prefix_def ws_encodings_def)

lemma js_length_example: "js_length ''Write spec'' = 10"
  by (simp add: js_length_def cp_length_def)

lemma spec_body_valid: "validationResult (taskValidationRules_create e0 L0) spec_body = []"
  by (simp add: validationResult_def taskValidationRules_create_def task_common_rules_def
      run_chain_def run_validators_def text_field_def id_field_def tags_field_def tags_items_def
      spec_body_def no_body_def notEmpty_def isLength_def isIn_def to_str_def
      val_length_examples priority_values_def)

lemma spec_body_saved:
  "save_new e0 \<lparr>tp_title = Some ''Write spec'', tp_description = None,
                 tp_status = Some ''pending'', tp_priority = Some ''high'',
                 tp_category = None, tp_assignedTo = None, tp_dueDate = None,
                 tp_tags = None, tp_updatedAt = None, tp_completedAt = None\<rparr> st1
     = Inr (created_task e0 ''Write spec'',
            st1\<lparr>st_tasks := st_tasks st1 @ [created_task e0 ''Write spec'']\<rparr>)"
  by (simp add: save_new_def cast_errors_def path_errors_def srv_opt_errors_def title_errors_def
      first_error_def check_required_def check_maxlength_def check_enum_def status_values_def
      priority_values_def dueDate_errors_def cast_dueDate_def new_Task_def pre_save_def
      cast_assignedTo_def str_of_def trim_example js_length_example created_task_def Let_def
      e0_def st1_def task_a_def task_b_def task_c_def task_d_def)

lemma spec_body_posted:
  "post_task e0 L0 spec_body st1 =
     (fail_json 500 ''Server error while creating task'',
      st1\<lparr>st_tasks := st_tasks st1 @ [created_task e0 ''Write spec'']\<rparr>)"
proof -
  have "post_task e0 L0 spec_body st1 = post_task_handler e0 (sanitize_body spec_body) st1"
    by (simp add: post_task_def spec_body_valid handleValidationErrors_def)
  then show ?thesis
    by (simp add: post_task_handler_def sanitize_body_def spec_body_def no_body_def
        verify_assigned_def trim_example spec_body_saved populate_createdBy)
qed

lemma spec_body_found:
  "find (\<lambda>x. tk_id x = 100) (st_tasks st1 @ [created_task e0 ''Write spec''])
     = Some (created_task e0 ''Write spec'')"
  by (intro find_appended_fresh)
     (simp_all add: created_task_def e0_def st1_def task_a_def task_b_def task_c_def task_d_def)

text \<open>
  Claim C8. Creating a task from \<^verbatim>\<open>{title: "Write spec", priority: "high"}\<close> and fetching it
  should give a record with status \<^verbatim>\<open>pending\<close>, priority \<^verbatim>\<open>high\<close>, category \<^verbatim>\<open>other\<close> and
  \<^verbatim>\<open>isOverdue\<close> false. In the store \<open>st1\<close>, where the generated id 100 is new, the create
  request stores the task with these three values and no due date, and then answers 500:
  the handler populates \<^verbatim>\<open>createdBy\<close> on the saved task, a path that the task schema does
  not declare. The handler of \<^verbatim>\<open>GET /api/tasks/:id\<close>, run on the id at a later time, finds
  the task and answers 500 for the same reason (and no request reaches it, its route
  naming an undefined rule set). The virtual \<^verbatim>\<open>isOverdue\<close> of the stored task is
  \<^verbatim>\<open>undefined\<close>, not false, and the key is absent from the task's JSON form.
\<close>

theorem create_then_fetch_divergence:
  "post_task e0 L0 spec_body st1 =
     (fail_json 500 ''Server error while creating task'',
      st1\<lparr>st_tasks := st_tasks st1 @ [created_task e0 ''Write spec'']\<rparr>)
   \<and> find (\<lambda>x. tk_id x = 100) (st_tasks (snd (post_task e0 L0 spec_body st1)))
       = Some (created_task e0 ''Write spec'')
   \<and> tk_title (created_task e0 ''Write spec'') = ''Write spec''
   \<and> tk_status (created_task e0 ''Write spec'') = ''pending''
   \<and> tk_priority (created_task e0 ''Write spec'') = ''high''
   \<and> tk_category (created_task e0 ''Write spec'') = ''other''
   \<and> tk_dueDate (created_task e0 ''Write spec'') = None
   \<and> get_task_handler e1 (Id 100) (snd (post_task e0 L0 spec_body st1))
       = fail_json 500 ''Server error while fetching task''
   \<and> isOverdue e1 (created_task e0 ''Write spec'') = Undefined
   \<and> jget ''isOverdue'' (task_json e1 JOid (created_task e0 ''Write spec'')) = None"
proof -
  have f: "find (\<lambda>x. tk_id x = 100) (st_tasks (snd (post_task e0 L0 spec_body st1)))
             = Some (created_task e0 ''Write spec'')"
    unfolding spec_body_posted using spec_body_found by simp
  have g: "get_task_handler e1 (Id 100) (snd (post_task e0 L0 spec_body st1))
             = fail_json 500 ''Server error while fetching task''"
    by (simp add: get_task_handler_def findById_def f populate_createdBy)
  have t: "tk_title (created_task e0 ''Write spec'') = ''Write spec''"
    "tk_status (created_task e0 ''Write spec'') = ''pending''"
    "tk_priority (created_task e0 ''Write spec'') = ''high''"
    "tk_category (created_task e0 ''Write spec'') = ''other''"
    "tk_dueDate (created_task e0 ''Write spec'') = None"
    by (simp_all add: created_task_def trim_example)
  have o: "isOverdue e1 (created_task e0 ''Write spec'') = Undefined"
    by (simp add: isOverdue_def created_task_def)
  have j: "jget ''isOverdue'' (task_json e1 JOid (created_task e0 ''Write spec'')) = None"
    by (simp add: task_json_def created_task_def jget_def opt_field_def jsval_field_def
        isOverdue_def ageInDays_def)
  from spec_body_posted f t g o j show ?thesis by (intro conjI)
qed

theorem create_then_fetch_divergence_witness:
  "res_status (fst (post_task e0 L0 spec_body st1)) = 500
   \<and> length (st_tasks (snd (post_task e0 L0 spec_body st1))) = 5
   \<and> res_status (get_task_handler e1 (Id 100) (snd (post_task e0 L0 spec_body st1))) = 500
   \<and> isOverdue e1 (created_task e0 ''Write spec'') = Undefined"
proof -
  note d = create_then_fetch_divergence
  have p: "post_task e0 L0 spec_body st1 =
     (fail_json 500 ''Server error while creating task'',
      st1\<lparr>st_tasks := st_tasks st1 @ [created_task e0 ''Write spec'']\<rparr>)"
    using d by (rule conjunct1)
  have g: "get_task_handler e1 (Id 100) (snd (post_task e0 L0 spec_body st1))
       = fail_json 500 ''Server error while fetching task''"
    using d by (elim conjE)
  have o: "isOverdue e1 (created_task e0 ''Write spec'') = Undefined"
    using d by (elim conjE)
  show ?thesis
    unfolding g o unfolding p by (simp add: fail_json_def st1_def)
qed

text \<open>Without a due date the virtual is \<^verbatim>\<open>undefined\<close> for every task, at every time.\<close>

lemma isOverdue_no_dueDate: "tk_dueDate t = None \<Longrightarrow> isOverdue e t = Undefined"
  by (simp add: isOverdue_def)

subsection \<open>Passwords are never serialised\<close>

lemma no_password_jdelete:
  "(\<forall>kv \<in> set kvs. no_password (snd kv)) \<Longrightarrow> no_password (JObj (jdelete ''password'' kvs))"
  by (auto simp: jdelete_def)

lemma no_password_fail_json: "no_password (res_body (fail_json c m))"
  by (simp add: fail_json_def)

lemma no_password_srv_error: "no_password (res_body (srv_error_handler err))"
  by (cases err) (auto simp: srv_error_handler_def)

lemma no_password_srv_user: "no_password (srv_user_select_no_password u)"
  by (simp add: srv_user_select_no_password_def)

lemma no_password_srv_populate: "no_password (srv_populate_user us i)"
  by (simp add: srv_populate_user_def split: option.splits)

lemma no_password_srv_task: "no_password (srv_task_json us t)"
  by (auto simp: srv_task_json_def opt_field_def no_password_srv_populate split: option.splits)

lemma no_password_srv_populate_tasks: "no_password (srv_populate_tasks ts ids)"
  by (auto simp: srv_populate_tasks_def split: option.splits)

lemma no_password_srv_project: "no_password (srv_project_json st p)"
  by (auto simp: srv_project_json_def opt_field_def no_password_srv_populate
      no_password_srv_populate_tasks split: option.splits)

lemma no_password_srv_list:
  "(\<forall>d \<in> set docs. no_password d) \<Longrightarrow> no_password pg \<Longrightarrow> no_password (res_body (srv_list_json docs pg))"
  by (simp add: srv_list_json_def)

lemma no_password_json_of_num: "no_password (json_of_num a)"
  by (cases a) (simp_all add: json_of_num_def)

lemma no_password_srv_pagination: "no_password (srv_pagination L q n)"
  by (simp add: srv_pagination_def no_password_json_of_num)

lemma no_password_srv_get_users: "no_password (res_body (srv_get_users e L q st))"
  by (auto simp: srv_get_users_def Let_def no_password_srv_error no_password_srv_user
      no_password_srv_pagination intro!: no_password_srv_list split: option.splits)

lemma no_password_srv_get_tasks: "no_password (res_body (srv_get_tasks e L q st))"
  by (auto simp: srv_get_tasks_def Let_def no_password_srv_error no_password_srv_task
      no_password_srv_pagination intro!: no_password_srv_list split: option.splits)

lemma no_password_srv_get_projects: "no_password (res_body (srv_get_projects e L q st))"
  by (auto simp: srv_get_projects_def Let_def no_password_srv_error no_password_srv_project
      no_password_srv_pagination intro!: no_password_srv_list split: option.splits)

lemma no_password_srv_toObject:
  "no_password (JObj (jdelete ''password'' (srv_user_toObject u)))"
  by (rule no_password_jdelete) (simp add: srv_user_toObject_def)

lemma srv_toObject_entries:
  "kv \<in> set (jdelete ''password'' (srv_user_toObject u)) \<Longrightarrow>
     fst kv \<noteq> ''password'' \<and> no_password (snd kv)"
  using no_password_srv_toObject[of u] by simp

lemma no_password_srv_post_users: "no_password (res_body (fst (srv_post_users e b st)))"
  by (auto simp: srv_post_users_def no_password_fail_json no_password_srv_error
      split: sum.splits dest: srv_toObject_entries)

lemma no_password_srv_put_users: "no_password (res_body (fst (srv_put_users r b st)))"
  by (auto simp: srv_put_users_def Let_def no_password_fail_json no_password_srv_error
      no_password_srv_user split: option.splits raw_id.splits)

lemma no_password_srv_delete_users: "no_password (res_body (fst (srv_delete_users r st)))"
  by (auto simp: srv_delete_users_def Let_def no_password_fail_json no_password_srv_error
      split: option.splits raw_id.splits)

lemma no_password_srv_post_tasks: "no_password (res_body (fst (srv_post_tasks e b st)))"
  by (auto simp: srv_post_tasks_def no_password_fail_json no_password_srv_error
      no_password_srv_task split: option.splits sum.splits raw_id.splits)

lemma no_password_preferences: "no_password (preferences_json p)"
  by (simp add: preferences_json_def)

lemma user_paths_values: "\<forall>kv \<in> set (user_paths u). no_password (snd kv)"
  by (auto simp: user_paths_def opt_field_def no_password_preferences split: option.splits)

lemma user_toObject_values: "\<forall>kv \<in> set (user_toObject p u). no_password (snd kv)"
  using user_paths_values[of u]
  by (cases p) (auto simp: user_toObject_def user_load_def user_virtuals_def)

lemma no_password_user_toJSON: "no_password (user_toJSON p u)"
  unfolding user_toJSON_def by (rule no_password_jdelete) (rule user_toObject_values)

lemma no_password_getPublicProfile: "no_password (getPublicProfile p u)"
  unfolding getPublicProfile_def by (rule no_password_jdelete) (rule user_toObject_values)

lemma no_password_findActiveUsers: "\<forall>j \<in> set (findActiveUsers us). no_password j"
  by (auto simp: findActiveUsers_def no_password_user_toJSON)

lemma no_password_populate_assignedTo: "no_password (populate_assignedTo us i)"
  by (simp add: populate_assignedTo_def no_password_user_toJSON split: option.splits)

lemma no_password_attachment: "no_password (attachment_json a)"
  by (auto simp: attachment_json_def opt_field_def split: option.splits)

lemma no_password_task_json:
  "(\<And>i. no_password (ref i)) \<Longrightarrow> no_password (task_json e ref t)"
  by (auto simp: task_json_def opt_field_def jsval_field_def no_password_attachment
      split: option.splits jsval.splits)

lemma no_password_task_ref:
  "no_password ((if c then populate_assignedTo us else JOid) i)"
  by (simp add: no_password_populate_assignedTo)

lemma no_password_populate:
  "populate e us paths docs = Inr js \<Longrightarrow> \<forall>j \<in> set js. no_password j"
  by (auto simp: populate_def no_password_task_json no_password_populate_assignedTo
      split: if_splits)

lemma no_password_populate_one:
  "populate_one e us paths doc = Inr (Some j) \<Longrightarrow> no_password j"
  by (auto simp: populate_one_def populate_def no_password_task_json
      no_password_populate_assignedTo split: option.splits if_splits)

lemma text_field_values: "inst \<in> set (text_field name g req) \<Longrightarrow> snd inst = Some v \<Longrightarrow> no_password v"
  by (auto simp: text_field_def)

lemma no_password_raw_id: "no_password (raw_id_json r)"
  by (cases r) (simp_all add: raw_id_json_def)

lemma id_field_values: "inst \<in> set (id_field name g req) \<Longrightarrow> snd inst = Some v \<Longrightarrow> no_password v"
  by (auto simp: id_field_def no_password_raw_id)

lemma tags_field_values: "inst \<in> set (tags_field b) \<Longrightarrow> snd inst = Some v \<Longrightarrow> no_password v"
  by (auto simp: tags_field_def)

lemma tags_items_values: "inst \<in> set (tags_items b) \<Longrightarrow> snd inst = Some v \<Longrightarrow> no_password v"
  by (auto simp: tags_items_def split: option.splits)

lemma common_instances:
  "concat (map (\<lambda>c. ch_select c b) (task_common_rules e L creating)) =
     text_field ''description'' bd_description b @ text_field ''status'' bd_status b
     @ text_field ''priority'' bd_priority b @ text_field ''category'' bd_category b
     @ text_field ''dueDate'' bd_dueDate b @ id_field ''assignedTo'' bd_assignedTo b
     @ tags_field b @ tags_items b @ text_field ''estimatedHours'' bd_estimatedHours b
     @ text_field ''actualHours'' bd_actualHours b"
  unfolding task_common_rules_def
  by (simp only: list.map concat.simps chain.simps append_Nil2)

lemma common_values:
  assumes "inst \<in> set (concat (map (\<lambda>c. ch_select c b) (task_common_rules e L creating)))"
      and "snd inst = Some v"
  shows "no_password v"
proof -
  from assms(1) consider
      (t) name g where "inst \<in> set (text_field name g b)"
    | (i) name g where "inst \<in> set (id_field name g b)"
    | (f) "inst \<in> set (tags_field b)"
    | (w) "inst \<in> set (tags_items b)"
    unfolding common_instances set_append Un_iff by blast
  then show ?thesis
  proof cases
    case t then show ?thesis using assms(2) by (rule text_field_values)
  next
    case i then show ?thesis using assms(2) by (rule id_field_values)
  next
    case f then show ?thesis using assms(2) by (rule tags_field_values)
  next
    case w then show ?thesis using assms(2) by (rule tags_items_values)
  qed
qed

lemma create_values:
  assumes "inst \<in> set (concat (map (\<lambda>c. ch_select c b) (taskValidationRules_create e L)))"
      and "snd inst = Some v"
  shows "no_password v"
proof -
  from assms(1) have "inst \<in> set (text_field ''title'' bd_title b)
      \<or> inst \<in> set (concat (map (\<lambda>c. ch_select c b) (task_common_rules e L True)))"
    unfolding taskValidationRules_create_def
    by (simp only: list.map concat.simps chain.simps set_append Un_iff)
  then show ?thesis
  proof (elim disjE)
    assume "inst \<in> set (text_field ''title'' bd_title b)"
    then show ?thesis using assms(2) by (rule text_field_values)
  next
    assume "inst \<in> set (concat (map (\<lambda>c. ch_select c b) (task_common_rules e L True)))"
    then show ?thesis using assms(2) by (rule common_values)
  qed
qed

lemma on_body_instances:
  "concat (map (\<lambda>c. ch_select c (r, b)) (map on_body rules)) = concat (map (\<lambda>c. ch_select c b) rules)"
  by (simp add: on_body_def o_def)

lemma update_values:
  assumes "inst \<in> set (concat (map (\<lambda>c. ch_select c (r, b)) (taskValidationRules_update e L)))"
      and "snd inst = Some v"
  shows "no_password v"
proof -
  from assms(1) have "inst = (''id'', Some (raw_id_json r))
      \<or> inst \<in> set (text_field ''title'' bd_title b)
      \<or> inst \<in> set (concat (map (\<lambda>c. ch_select c b) (task_common_rules e L False)))"
    unfolding taskValidationRules_update_def list.map concat.simps on_body_instances
    by (simp only: on_body_def chain.simps snd_conv fst_conv set_append Un_iff list.set
          insert_iff empty_iff simp_thms)
  then show ?thesis
  proof (elim disjE)
    assume "inst = (''id'', Some (raw_id_json r))"
    then have "v = raw_id_json r" using assms(2) by simp
    then show ?thesis by (simp add: no_password_raw_id)
  next
    assume "inst \<in> set (text_field ''title'' bd_title b)"
    then show ?thesis using assms(2) by (rule text_field_values)
  next
    assume "inst \<in> set (concat (map (\<lambda>c. ch_select c b) (task_common_rules e L False)))"
    then show ?thesis using assms(2) by (rule common_values)
  qed
qed

lemma query_instances:
  "concat (map (\<lambda>c. ch_select c q) taskValidationRules_query) =
     text_field ''page'' tq_page q @ text_field ''limit'' tq_limit q
     @ text_field ''status'' tq_status q @ text_field ''priority'' tq_priority q
     @ text_field ''category'' tq_category q @ id_field ''assignedTo'' tq_assignedTo q
     @ text_field ''sortBy'' tq_sortBy q @ text_field ''sortOrder'' tq_sortOrder q"
  unfolding taskValidationRules_query_def
  by (simp only: list.map concat.simps chain.simps append_Nil2)

lemma query_values:
  assumes "inst \<in> set (concat (map (\<lambda>c. ch_select c q) taskValidationRules_query))"
      and "snd inst = Some v"
  shows "no_password v"
proof -
  from assms(1) consider
      (t) name g where "inst \<in> set (text_field name g q)"
    | (i) name g where "inst \<in> set (id_field name g q)"
    unfolding query_instances set_append Un_iff by blast
  then show ?thesis
  proof cases
    case t then show ?thesis using assms(2) by (rule text_field_values)
  next
    case i then show ?thesis using assms(2) by (rule id_field_values)
  qed
qed

lemma no_password_error_json:
  "(\<And>v. ve_value err = Some v \<Longrightarrow> no_password v) \<Longrightarrow> no_password (error_json err)"
  by (auto simp: error_json_def opt_field_def split: option.splits)

lemma no_password_rejection:
  assumes "\<And>inst v. inst \<in> set (concat (map (\<lambda>c. ch_select c req) rules))
             \<Longrightarrow> snd inst = Some v \<Longrightarrow> no_password v"
      and "handleValidationErrors (validationResult rules req) = Some r"
  shows "no_password (res_body r)"
proof -
  have "no_password (error_json err)" if "err \<in> set (validationResult rules req)" for err
  proof (rule no_password_error_json)
    fix v assume v: "ve_value err = Some v"
    from validationResult_sound[OF that] obtain c inst where
      "c \<in> set rules" "inst \<in> set (ch_select c req)" "ve_value err = snd inst"
      by auto
    then have "inst \<in> set (concat (map (\<lambda>c. ch_select c req) rules))" "snd inst = Some v"
      using v by auto
    then show "no_password v" by (rule assms(1))
  qed
  then show ?thesis
    using assms(2) by (auto simp: handleValidationErrors_def split: if_splits)
qed

lemma no_password_tasks_pagination: "no_password (tasks_pagination L p l n)"
  by (simp add: tasks_pagination_def Let_def no_password_json_of_num)

lemma no_password_get_tasks_handler: "no_password (res_body (get_tasks_handler e L q st))"
  by (auto simp: get_tasks_handler_def Let_def no_password_fail_json
      no_password_tasks_pagination split: option.splits sum.splits
      dest: no_password_populate)

lemma no_password_get_tasks: "no_password (res_body (get_tasks e L q st))"
proof (cases "handleValidationErrors (validationResult taskValidationRules_query q)")
  case None
  then show ?thesis by (simp add: get_tasks_def no_password_get_tasks_handler)
next
  case (Some r)
  then have "no_password (res_body r)"
    by (rule no_password_rejection[rotated]) (rule query_values)
  with Some show ?thesis by (simp add: get_tasks_def)
qed

lemma no_password_get_task_handler: "no_password (res_body (get_task_handler e r st))"
  by (auto simp: get_task_handler_def no_password_fail_json
      split: sum.splits option.splits dest: no_password_populate_one)

lemma no_password_verify:
  "verify_assigned m v us = Some r \<Longrightarrow> no_password (res_body r)"
  by (auto simp: verify_assigned_def no_password_fail_json split: option.splits if_splits sum.splits)

lemma no_password_post_task_handler: "no_password (res_body (fst (post_task_handler e b st)))"
  by (auto simp: post_task_handler_def Let_def no_password_fail_json
      split: option.splits sum.splits dest: no_password_verify no_password_populate_one)

lemma no_password_post_task: "no_password (res_body (fst (post_task e L b st)))"
proof (cases "handleValidationErrors (validationResult (taskValidationRules_create e L) b)")
  case None
  then show ?thesis by (simp add: post_task_def no_password_post_task_handler)
next
  case (Some r)
  then have "no_password (res_body r)"
    by (rule no_password_rejection[rotated]) (rule create_values)
  with Some show ?thesis by (simp add: post_task_def)
qed

lemma no_password_put_task_handler: "no_password (res_body (fst (put_task_handler e r b st)))"
  by (auto simp: put_task_handler_def no_password_fail_json
      split: option.splits sum.splits dest: no_password_verify no_password_populate_one)

lemma no_password_put_task: "no_password (res_body (fst (put_task e L r b st)))"
proof (cases "handleValidationErrors (validationResult (taskValidationRules_update e L) (r, b))")
  case None
  then show ?thesis by (simp add: put_task_def no_password_put_task_handler)
next
  case (Some res)
  then have "no_password (res_body res)"
    by (rule no_password_rejection[rotated]) (rule update_values)
  with Some show ?thesis by (simp add: put_task_def)
qed

lemma no_password_patch_status_handler:
  "no_password (res_body (fst (patch_status_handler e r s st)))"
  by (auto simp: patch_status_handler_def no_password_fail_json
      split: option.splits sum.splits dest: no_password_populate_one)

lemma srv_select_password_independent:
  "srv_user_select_no_password (u\<lparr>u_password := pw\<rparr>) = srv_user_select_no_password u"
  by (simp add: srv_user_select_no_password_def)

lemma srv_toObject_password_independent:
  "jdelete ''password'' (srv_user_toObject (u\<lparr>u_password := pw\<rparr>))
     = jdelete ''password'' (srv_user_toObject u)"
  by (simp add: srv_user_toObject_def jdelete_def)

lemma user_paths_password_independent:
  "filter (\<lambda>kv. fst kv \<noteq> ''password'') (user_paths (u\<lparr>usr_password := pw\<rparr>))
     = filter (\<lambda>kv. fst kv \<noteq> ''password'') (user_paths u)"
  by (simp add: user_paths_def opt_field_def split: option.splits)

lemma jdelete_filter:
  "jdelete k (filter P kvs) = filter P (jdelete k kvs)"
  by (induction kvs) (auto simp: jdelete_def)

lemma user_toJSON_password_independent:
  "user_toJSON p (u\<lparr>usr_password := pw\<rparr>) = user_toJSON p u"
proof -
  have v: "user_virtuals (u\<lparr>usr_password := pw\<rparr>) = user_virtuals u"
    by (simp add: user_virtuals_def)
  have d: "jdelete ''password'' (user_paths (u\<lparr>usr_password := pw\<rparr>))
             = jdelete ''password'' (user_paths u)"
    using user_paths_password_independent[where u = u and pw = pw] by (simp add: jdelete_def)
  have "jdelete ''password'' (user_load p (u\<lparr>usr_password := pw\<rparr>))
          = jdelete ''password'' (user_load p u)"
    by (cases p) (simp_all add: user_load_def jdelete_filter d)
  then show ?thesis
    by (simp add: user_toJSON_def user_toObject_def v jdelete_def)
qed

text \<open>
  Claim C9. No response carries a user's password: in the body of every response of the
  single-file server's routes (users list, create, update, delete; tasks and projects with
  their populated users) and of the modular server's task routes and task handlers (with
  the populated \<^verbatim>\<open>assignedTo\<close>), no object at any depth has the key \<^verbatim>\<open>password\<close>; the same holds for
  \<^verbatim>\<open>toJSON\<close>, \<^verbatim>\<open>getPublicProfile\<close> and \<^verbatim>\<open>findActiveUsers\<close> of the user model, whatever was
  loaded of the document. Equivalently, changing only the password of a user changes none
  of the serialised payloads.
\<close>

theorem no_password_in_responses:
  "no_password (res_body (srv_get_users e L sq sst))
   \<and> no_password (res_body (fst (srv_post_users e ub sst)))
   \<and> no_password (res_body (fst (srv_put_users sr uu sst)))
   \<and> no_password (res_body (fst (srv_delete_users sr sst)))
   \<and> no_password (res_body (srv_get_tasks e L sq sst))
   \<and> no_password (res_body (fst (srv_post_tasks e tb sst)))
   \<and> no_password (res_body (srv_get_projects e L sq sst))
   \<and> no_password (user_toJSON p u)
   \<and> no_password (getPublicProfile p u)
   \<and> (\<forall>j \<in> set (findActiveUsers us). no_password j)
   \<and> no_password (res_body (get_tasks e L q st))
   \<and> no_password (res_body (get_task_handler e r st))
   \<and> no_password (res_body (fst (post_task e L b st)))
   \<and> no_password (res_body (fst (put_task e L r b st)))
   \<and> no_password (res_body (fst (patch_status_handler e r s st)))
   \<and> srv_user_select_no_password (su\<lparr>u_password := pw\<rparr>) = srv_user_select_no_password su
   \<and> jdelete ''password'' (srv_user_toObject (su\<lparr>u_password := pw\<rparr>))
       = jdelete ''password'' (srv_user_toObject su)
   \<and> user_toJSON p (u\<lparr>usr_password := pw\<rparr>) = user_toJSON p u"
  by (intro conjI no_password_srv_get_users no_password_srv_post_users no_password_srv_put_users
      no_password_srv_delete_users no_password_srv_get_tasks no_password_srv_post_tasks
      no_password_srv_get_projects no_password_user_toJSON no_password_getPublicProfile
      no_password_findActiveUsers no_password_get_tasks no_password_get_task_handler
      no_password_post_task no_password_put_task no_password_patch_status_handler
      srv_select_password_independent srv_toObject_password_independent
      user_toJSON_password_independent)

lemma carol_email_ok: "srv_email_match ''carol@x.org''"
  by (simp add: srv_email_match_def ws_prefix_def ws_encodings_def)

lemma carol_saved:
  "srv_save_user e0 ''carol'' ''carol@x.org'' ''secret3'' st0 =
     Inr (\<lparr>u_id = 100, u_username = ''carol'', u_email = ''carol@x.org'', u_password = ''secret3'',
            u_createdAt = 1000, u_isActive = True\<rparr>,
          st0\<lparr>users := users st0 @ [\<lparr>u_id = 100, u_username = ''carol'', u_email = ''carol@x.org'',
            u_password = ''secret3'', u_createdAt = 1000, u_isActive = True\<rparr>]\<rparr>)"
  by (simp add: srv_save_user_def srv_username_errors_def srv_email_errors_def
      srv_password_errors_def first_error_def check_required_def check_minlength_def
      check_maxlength_def carol_email_ok js_length_examples st0_def e0_def Let_def)

lemma carol_created:
  "fst (srv_post_users e0 carol_body st0) =
     \<lparr>res_status = 201,
      res_body = JObj [(''success'', JBool True), (''message'', JStr ''User created successfully''),
                       (''data'', JObj [(''_id'', JOid 100), (''username'', JStr ''carol''),
                                        (''email'', JStr ''carol@x.org''), (''createdAt'', JDate 1000),
                                        (''isActive'', JBool True), (''__v'', JNum 0)])]\<rparr>"
  by (simp add: srv_post_users_def carol_body_def truthy_def str_of_def carol_saved
      srv_user_toObject_def jdelete_def)

theorem no_password_in_responses_witness:
  "no_password (res_body (fst (srv_post_users e0 carol_body st0)))
   \<and> res_status (fst (srv_post_users e0 carol_body st0)) = 201
   \<and> jkeys (response_data (fst (srv_post_users e0 carol_body st0)))
       = [''_id'', ''username'', ''email'', ''createdAt'', ''isActive'', ''__v'']
   \<and> user_toJSON Everything (ann\<lparr>usr_password := ''other''\<rparr>) = user_toJSON Everything ann
   \<and> no_password (user_toJSON Everything ann)"
proof -
  note t = no_password_in_responses [where sq = srv_no_query and sst = st0 and e = e0
      and ub = carol_body and sr = "Id 1"
      and uu = "\<lparr>up_username = None, up_email = None, up_isActive = None\<rparr>"
      and tb = srv_dangling_body and p = Everything and u = ann and us = "[ann]" and L = L0
      and q = no_query and st = st1 and r = "Id 7" and b = no_body and s = None
      and su = "hd (users st0)" and pw = "''other''"]
  have w: "no_password (res_body (fst (srv_post_users e0 carol_body st0)))
      \<and> user_toJSON Everything (ann\<lparr>usr_password := ''other''\<rparr>) = user_toJSON Everything ann
      \<and> no_password (user_toJSON Everything ann)"
    using t by (elim conjE) (intro conjI; assumption)
  have r: "res_status (fst (srv_post_users e0 carol_body st0)) = 201
      \<and> jkeys (response_data (fst (srv_post_users e0 carol_body st0)))
          = [''_id'', ''username'', ''email'', ''createdAt'', ''isActive'', ''__v'']"
    by (simp add: carol_created response_data_def jget_def jkeys_def)
  from w r show ?thesis by (elim conjE) (intro conjI; assumption)
qed

end
